theory Spec2Isabelle
  imports Complex_Main
begin

section \<open>Exceptions and outcomes\<close>

text \<open>
  The two modules are Python. A call either returns a value or raises; in both cases the
  files, the log and the console keep what was written before. An outcome therefore
  carries the state reached together with the value or the exception.
\<close>

datatype py_key = IntKey int | StrKey string

datatype py_error =
    KeyError py_key
  | NameError string
  | UnboundLocalError string
  | AttributeError string
  | TypeError
  | ZeroDivisionError
  | OverflowError
  | OSError string
  | BadZipFile
  | LibraryError string

datatype ('a, 's) outcome =
    Raised py_error (final_state: 's)
  | Returned 'a (final_state: 's)

definition and_then :: "('a, 's) outcome \<Rightarrow> ('a \<Rightarrow> 's \<Rightarrow> ('b, 's) outcome) \<Rightarrow> ('b, 's) outcome" where
  "and_then r f = (case r of Raised e s \<Rightarrow> Raised e s | Returned v s \<Rightarrow> f v s)"

definition chain :: "py_error + 'a \<Rightarrow> ('a \<Rightarrow> py_error + 'b) \<Rightarrow> py_error + 'b" where
  "chain r f = (case r of Inl e \<Rightarrow> Inl e | Inr v \<Rightarrow> f v)"


section \<open>Python numbers\<close>

subsection \<open>The product of an int and a float literal, truncated by int()\<close>

text \<open>
  \<open>int(total_num_files * 0.8)\<close> converts the int to a double (round to nearest, ties to
  even, OverflowError when the result would not be finite), multiplies two doubles
  (rounded the same way) and truncates. A double with a 53 bit significand \<open>m\<close> and value
  \<open>m / 2 ^ e\<close> is kept as the pair of \<open>m\<close> and \<open>e\<close>; the literals are
  \<open>0.8 = 0x1.999999999999ap-1\<close> and \<open>0.1 = 0x1.999999999999ap-4\<close>.
\<close>

fun bit_length :: "nat \<Rightarrow> nat" where
  "bit_length n = (if n = 0 then 0 else Suc (bit_length (n div 2)))"

declare bit_length.simps [simp del]

definition round_half_even_53 :: "nat \<Rightarrow> nat" where
  "round_half_even_53 p =
     (let b = bit_length p in
      if b \<le> 53 then p
      else
        let s = b - 53;
            q = p div 2 ^ s;
            r = p mod 2 ^ s;
            h = 2 ^ (s - 1)
        in (if h < r \<or> (r = h \<and> odd q) then q + 1 else q) * 2 ^ s)"

record pyfloat =
  significand :: nat
  binary_scale :: nat

definition float_0_8 :: pyfloat where
  "float_0_8 = \<lparr>significand = 7205759403792794, binary_scale = 53\<rparr>"

definition float_0_1 :: pyfloat where
  "float_0_1 = \<lparr>significand = 7205759403792794, binary_scale = 56\<rparr>"

definition int_to_float :: "nat \<Rightarrow> py_error + nat" where
  "int_to_float n =
     (let x = round_half_even_53 n
      in if 2 ^ 1024 \<le> x then Inl OverflowError else Inr x)"

definition int_of_product :: "nat \<Rightarrow> pyfloat \<Rightarrow> py_error + nat" where
  "int_of_product n c =
     chain (int_to_float n)
       (\<lambda>x. Inr (round_half_even_53 (x * significand c) div 2 ^ binary_scale c))"

subsection \<open>str() of an int\<close>

fun nat_digits :: "nat \<Rightarrow> string" where
  "nat_digits n =
     (if n < 10 then [''0123456789'' ! n]
      else nat_digits (n div 10) @ [''0123456789'' ! (n mod 10)])"

declare nat_digits.simps [simp del]

definition py_str :: "int \<Rightarrow> string" where
  "py_str i = (if i < 0 then CHR ''-'' # nat_digits (nat (- i)) else nat_digits (nat i))"


section \<open>The world outside the program\<close>

text \<open>
  State dictionaries (tensors by name) are values of \<open>'t\<close>, Python floats that come out of
  tensors are values of \<open>'f\<close>, decoded scores are values of \<open>'x\<close>: the program never looks
  inside them. Files are kept by path. The calls made to the download, archive and
  chunking libraries are recorded in order, with their arguments.
\<close>

datatype ('t, 'f) pyobj = PyInt int | PyFloat 'f | StateDict 't

type_synonym ('t, 'f) pydict = "(string \<times> ('t, 'f) pyobj) list"

datatype ('t, 'f, 'x) node =
    Directory
  | ZipFile "(string \<times> ('t, 'f, 'x) node) list"
  | TextFile "string list"
  | TorchFile "('t, 'f) pydict"
  | MidiFile 'x
  | OtherFile

datatype call =
    Download string string
  | ExtractAll string string
  | Remove string
  | SplitFilesForTraining "string list" string nat nat

datatype ('t, 'f) message =
    Text string
  | UsingGPUs nat
  | LoadedCheckpoint "('t, 'f) pyobj"
  | ResumedTraining "('t, 'f) pyobj"
  | StepLoss nat 'f
  | EpochLoss int 'f
  | SavedCheckpoint string

record ('t, 'f, 'x) world =
  files :: "string \<rightharpoonup> ('t, 'f, 'x) node"
  calls :: "call list"
  stdout :: "('t, 'f) message list"
  logfile :: "('t, 'f) message list"

record 'x tokenizer =
  vocab :: "(string \<times> int) list"
  decode :: "string list list \<Rightarrow> py_error + 'x"

record batch =
  input_ids :: "int list list"
  attention_mask :: "int list list"

text \<open>
  The collaborators the spec puts out of scope are parameters: what the download yields
  (an exception, nothing written, or a file), what opening the archive at a path and
  extracting all of it into a directory does to the files (it returns or raises, and
  either way leaves the files it has written), the order in which the file system
  enumerates, the chunking routine, the data loader built over the chunked files, the
  number of accelerators, the forward and backward pass with the optimizer update, and
  float arithmetic.
\<close>

record ('t, 'f, 'x) env =
  gdown_download :: "string \<Rightarrow> py_error + ('t, 'f, 'x) node option"
  zipfile_extractall ::
    "(string \<rightharpoonup> ('t, 'f, 'x) node) \<Rightarrow> string \<Rightarrow> string \<Rightarrow>
       (unit, string \<rightharpoonup> ('t, 'f, 'x) node) outcome"
  glob_mid :: "(string \<rightharpoonup> ('t, 'f, 'x) node) \<Rightarrow> string \<Rightarrow> string list"
  split_files_for_training ::
    "string list \<Rightarrow> 'x tokenizer \<Rightarrow> string \<Rightarrow> nat \<Rightarrow> nat \<Rightarrow>
       (string \<rightharpoonup> ('t, 'f, 'x) node) \<Rightarrow> py_error + (string \<rightharpoonup> ('t, 'f, 'x) node)"
  remi :: "'x tokenizer"
  make_loader :: "string list \<Rightarrow> (string \<rightharpoonup> ('t, 'f, 'x) node) \<Rightarrow> batch list"
  cuda_device_count :: nat
  new_parameters :: "nat \<Rightarrow> 't"
  new_optimizer_state :: "'t \<Rightarrow> 't"
  train_step ::
    "'t \<Rightarrow> 't \<Rightarrow> int list list \<Rightarrow> bool list list \<Rightarrow> int list list \<Rightarrow>
       py_error + ('t \<times> 't \<times> 'f)"
  float_of_int :: "int \<Rightarrow> 'f"
  float_add :: "'f \<Rightarrow> 'f \<Rightarrow> 'f"
  float_div :: "'f \<Rightarrow> 'f \<Rightarrow> 'f"

definition py_print :: "('t, 'f) message \<Rightarrow> ('t, 'f, 'x) world \<Rightarrow> ('t, 'f, 'x) world" where
  "py_print msg w = w\<lparr>stdout := stdout w @ [msg]\<rparr>"

definition logging_info :: "('t, 'f) message \<Rightarrow> ('t, 'f, 'x) world \<Rightarrow> ('t, 'f, 'x) world" where
  "logging_info msg w = w\<lparr>logfile := logfile w @ [msg]\<rparr>"

definition record_call :: "call \<Rightarrow> ('t, 'f, 'x) world \<Rightarrow> ('t, 'f, 'x) world" where
  "record_call c w = w\<lparr>calls := calls w @ [c]\<rparr>"

definition path_exists :: "('t, 'f, 'x) world \<Rightarrow> string \<Rightarrow> bool" where
  "path_exists w p = (files w p \<noteq> None)"

definition write_file ::
  "string \<Rightarrow> ('t, 'f, 'x) node \<Rightarrow> ('t, 'f, 'x) world \<Rightarrow> (unit, ('t, 'f, 'x) world) outcome" where
  "write_file p n w =
     (case files w p of
        Some Directory \<Rightarrow> Raised (OSError p) w
      | _ \<Rightarrow> Returned () (w\<lparr>files := (files w)(p \<mapsto> n)\<rparr>))"

definition os_remove :: "string \<Rightarrow> ('t, 'f, 'x) world \<Rightarrow> (unit, ('t, 'f, 'x) world) outcome" where
  "os_remove p w =
     (case files w p of
        None \<Rightarrow> Raised (OSError p) w
      | Some Directory \<Rightarrow> Raised (OSError p) w
      | Some _ \<Rightarrow> Returned () (w\<lparr>files := (files w)(p := None)\<rparr>))"


section \<open>utils.py\<close>

subsection \<open>convert_to_midi\<close>

definition id_to_token_of :: "(string \<times> int) list \<Rightarrow> (int \<rightharpoonup> string)" where
  "id_to_token_of items = fold (\<lambda>(k, v) m. m(v \<mapsto> k)) items Map.empty"

fun lookup_tokens :: "(int \<rightharpoonup> string) \<Rightarrow> int list \<Rightarrow> py_error + string list" where
  "lookup_tokens id_to_token [] = Inr []"
| "lookup_tokens id_to_token (i # rest) =
     (case id_to_token i of
        None \<Rightarrow> Inl (KeyError (IntKey i))
      | Some token \<Rightarrow> chain (lookup_tokens id_to_token rest) (\<lambda>tokens. Inr (token # tokens)))"

definition convert_to_midi ::
  "int list \<Rightarrow> 'x tokenizer \<Rightarrow> string \<Rightarrow> ('t, 'f, 'x) world \<Rightarrow> (unit, ('t, 'f, 'x) world) outcome" where
  "convert_to_midi token_ids tok dump_path w =
     (let id_to_token = id_to_token_of (vocab tok)
      in case lookup_tokens id_to_token token_ids of
           Inl e \<Rightarrow> Raised e w
         | Inr tokens \<Rightarrow>
             (let actual_tokens = [tokens]
              in and_then
                   (write_file ''generated_tokens.txt''
                      (TextFile (map (\<lambda>token. token @ [CHR 0x0A]) (hd actual_tokens))) w)
                   (\<lambda>_ w1. case decode tok actual_tokens of
                              Inl e \<Rightarrow> Raised e w1
                            | Inr generated_midi \<Rightarrow> write_file dump_path (MidiFile generated_midi) w1)))"

subsection \<open>get_eval_metrics\<close>

text \<open>
  The names bound at module level in utils.py are its imports and its five functions.
  A name that is neither a local of the function nor one of these nor a builtin raises
  NameError when it is evaluated; \<open>py\<close> is no builtin.
\<close>

definition utils_globals :: "string list" where
  "utils_globals =
     [''REMI'', ''TokenizerConfig'', ''split_files_for_training'', ''Path'', ''os'', ''muspy'',
      ''shuffle'', ''torch'', ''gdown'', ''zipfile'', ''convert_to_midi'', ''get_eval_metrics'',
      ''generate_causal_mask'', ''load_pretrain_data'', ''split_pretrain_data'']"

definition resolve_global :: "string \<Rightarrow> py_error + string" where
  "resolve_global name = (if name \<in> set utils_globals then Inr name else Inl (NameError name))"

record ('s, 'v) muspy =
  read_midi :: "string \<Rightarrow> py_error + 's"
  pitch_range :: "'s \<Rightarrow> py_error + 'v"
  n_pitches_used :: "'s \<Rightarrow> py_error + 'v"
  n_pitch_classes_used :: "'s \<Rightarrow> py_error + 'v"
  polyphony :: "'s \<Rightarrow> py_error + 'v"
  polyphony_rate :: "'s \<Rightarrow> py_error + 'v"
  empty_beat_rate :: "'s \<Rightarrow> py_error + 'v"

definition get_eval_metrics :: "('s, 'v) muspy \<Rightarrow> string \<Rightarrow> py_error + 'v list" where
  "get_eval_metrics lib midi_path =
     chain (read_midi lib midi_path) (\<lambda>music.
     chain (pitch_range lib music) (\<lambda>pitch_range_v.
     chain (n_pitches_used lib music) (\<lambda>n_pitch.
     chain (n_pitch_classes_used lib music) (\<lambda>n_pitch_class.
     chain (resolve_global ''py'') (\<lambda>py.
     chain (if py = ''muspy'' then polyphony lib music else Inl (AttributeError ''polyphony''))
       (\<lambda>polyphony_v.
     chain (polyphony_rate lib music) (\<lambda>polyphony_rate_v.
     chain (empty_beat_rate lib music) (\<lambda>empty_beat_rate_v.
       Inr [pitch_range_v, n_pitch, n_pitch_class, polyphony_v, polyphony_rate_v,
            empty_beat_rate_v]))))))))"

subsection \<open>load_pretrain_data\<close>

definition load_pretrain_data ::
  "('t, 'f, 'x) env \<Rightarrow> string \<Rightarrow> string \<Rightarrow> string \<Rightarrow> ('t, 'f, 'x) world \<Rightarrow>
     (string, ('t, 'f, 'x) world) outcome" where
  "load_pretrain_data E download_url output_zip extracted_file_name w =
     (let w1 = record_call (Download download_url output_zip)
                 (py_print (Text ''downloading pretrain data: '') w)
      in case gdown_download E download_url of
           Inl e \<Rightarrow> Raised e w1
         | Inr fetched \<Rightarrow>
             (let w2 = (case fetched of
                          None \<Rightarrow> w1
                        | Some n \<Rightarrow> w1\<lparr>files := (files w1)(output_zip \<mapsto> n)\<rparr>);
                  w3 = record_call (ExtractAll output_zip extracted_file_name)
                         (py_print (Text ''unzipping pretrain data: '') w2)
              in case zipfile_extractall E (files w3) output_zip extracted_file_name of
                   Raised e fs \<Rightarrow> Raised e (w3\<lparr>files := fs\<rparr>)
                 | Returned _ fs \<Rightarrow>
                     (let w4 = py_print (Text ''pretrain data unzipped.'') (w3\<lparr>files := fs\<rparr>);
                          w5 = record_call (Remove output_zip) w4
                      in case os_remove output_zip w5 of
                           Raised e w6 \<Rightarrow> Raised e w6
                         | Returned _ w6 \<Rightarrow>
                             Returned extracted_file_name
                               (py_print (Text ''removed zip file'') w6))))"

subsection \<open>split_pretrain_data\<close>

definition py_slice :: "nat \<Rightarrow> nat \<Rightarrow> 'a list \<Rightarrow> 'a list" where
  "py_slice i j xs = drop i (take j xs)"

definition num_files_train :: "nat \<Rightarrow> py_error + nat" where
  "num_files_train total_num_files = int_of_product total_num_files float_0_8"

definition num_files_valid :: "nat \<Rightarrow> py_error + nat" where
  "num_files_valid total_num_files = int_of_product total_num_files float_0_1"

definition midi_paths_subsets :: "'p list \<Rightarrow> py_error + ('p list \<times> 'p list \<times> 'p list)" where
  "midi_paths_subsets midi_paths =
     (let total_num_files = length midi_paths
      in chain (num_files_train total_num_files) (\<lambda>n_train.
         chain (num_files_valid total_num_files) (\<lambda>n_valid.
           Inr (take n_train midi_paths,
                py_slice n_train (n_train + n_valid) midi_paths,
                drop (n_train + n_valid) midi_paths))))"

fun split_subsets ::
  "('t, 'f, 'x) env \<Rightarrow> 'x tokenizer \<Rightarrow> nat \<Rightarrow> (string list \<times> string) list \<Rightarrow>
     ('t, 'f, 'x) world \<Rightarrow> (unit, ('t, 'f, 'x) world) outcome" where
  "split_subsets E tok max_len [] w = Returned () w"
| "split_subsets E tok max_len ((files_path, subset_name) # rest) w =
     (let subset_chunks_dir = ''pretrain_data/dataset_'' @ subset_name;
          w1 = record_call (SplitFilesForTraining files_path subset_chunks_dir max_len 2) w
      in case split_files_for_training E files_path tok subset_chunks_dir max_len 2 (files w1) of
           Inl e \<Rightarrow> Raised e w1
         | Inr fs \<Rightarrow> split_subsets E tok max_len rest (w1\<lparr>files := fs\<rparr>))"

definition split_pretrain_data ::
  "('t, 'f, 'x) env \<Rightarrow> string \<Rightarrow> 'x tokenizer \<Rightarrow> nat \<Rightarrow> ('t, 'f, 'x) world \<Rightarrow>
     (unit, ('t, 'f, 'x) world) outcome" where
  "split_pretrain_data E midi_path tok max_len w =
     (let midi_paths = glob_mid E (files w) midi_path
      in case midi_paths_subsets midi_paths of
           Inl e \<Rightarrow> Raised e w
         | Inr (midi_paths_train, midi_paths_valid, midi_paths_test) \<Rightarrow>
             split_subsets E tok max_len
               [(midi_paths_train, ''train''), (midi_paths_valid, ''validation''),
                (midi_paths_test, ''test'')] w)"


section \<open>pretrain.py\<close>

subsection \<open>The model object\<close>

text \<open>
  Modelled from the spec: the class MidiDecoderOnlyModel is defined in midi_decoder.py,
  which is not among the sources. The spec has the trainer "instantiate model, wrap for
  multi-accelerator data parallelism if more than one accelerator is visible" and says
  the model "owns its parameters". The bare model is therefore an object that holds its
  parameter values and has no attribute named \<open>module\<close>; the wrapper that
  \<open>nn.DataParallel\<close> builds is the object that has one.
\<close>

datatype 't module = Bare 't | DataParallel 't

fun module_of :: "'t module \<Rightarrow> py_error + 't" where
  "module_of (Bare m) = Inl (AttributeError ''module'')"
| "module_of (DataParallel m) = Inr m"

fun parameters :: "'t module \<Rightarrow> 't" where
  "parameters (Bare m) = m"
| "parameters (DataParallel m) = m"

fun with_parameters :: "'t module \<Rightarrow> 't \<Rightarrow> 't module" where
  "with_parameters (Bare _) m = Bare m"
| "with_parameters (DataParallel _) m = DataParallel m"

subsection \<open>Local variables of main\<close>

record ('t, 'f) trainer =
  model :: "'t module"
  optimizer :: 't
  step :: nat
  total_loss :: 'f
  loss :: "'f option"

definition num_epochs :: int where
  "num_epochs = 20"

definition save_every :: int where
  "save_every = 2"

definition log_interval :: nat where
  "log_interval = 500"

subsection \<open>Start-up\<close>

definition makedirs_exist_ok ::
  "string \<Rightarrow> ('t, 'f, 'x) world \<Rightarrow> (unit, ('t, 'f, 'x) world) outcome" where
  "makedirs_exist_ok p w =
     (case files w p of
        None \<Rightarrow> Returned () (w\<lparr>files := (files w)(p \<mapsto> Directory)\<rparr>)
      | Some Directory \<Rightarrow> Returned () w
      | Some _ \<Rightarrow> Raised (OSError p) w)"

definition prepare_pretrain_data ::
  "('t, 'f, 'x) env \<Rightarrow> 'x tokenizer \<Rightarrow> ('t, 'f, 'x) world \<Rightarrow> (unit, ('t, 'f, 'x) world) outcome" where
  "prepare_pretrain_data E midi_tokenizer w =
     (if \<not> path_exists w ''midis'' then
        (let pretrain_file_id = ''1BDEPaEWFEB2ADquS1VYp5iLZYVngw799'';
             url = ''https://drive.google.com/uc?id='' @ pretrain_file_id
         in and_then (load_pretrain_data E url ''midis.zip'' ''midis'' w)
              (\<lambda>_ w1. split_pretrain_data E ''midis'' midi_tokenizer 1024 w1))
      else Returned () w)"

definition build_model ::
  "('t, 'f, 'x) env \<Rightarrow> nat \<Rightarrow> ('t, 'f, 'x) world \<Rightarrow> 't module \<times> ('t, 'f, 'x) world" where
  "build_model E vocab_size w =
     (let m = new_parameters E vocab_size
      in if 1 < cuda_device_count E
         then (DataParallel m, py_print (UsingGPUs (cuda_device_count E)) w)
         else (Bare m, w))"

subsection \<open>Resuming from the checkpoint\<close>

definition torch_load :: "('t, 'f, 'x) world \<Rightarrow> string \<Rightarrow> py_error + ('t, 'f) pydict" where
  "torch_load w p =
     (case files w p of
        Some (TorchFile d) \<Rightarrow> Inr d
      | _ \<Rightarrow> Inl (LibraryError ''torch.load''))"

definition dict_get :: "('t, 'f) pydict \<Rightarrow> string \<Rightarrow> py_error + ('t, 'f) pyobj" where
  "dict_get d k = (case map_of d k of None \<Rightarrow> Inl (KeyError (StrKey k)) | Some v \<Rightarrow> Inr v)"

fun load_state_dict :: "('t, 'f) pyobj \<Rightarrow> py_error + 't" where
  "load_state_dict (StateDict s) = Inr s"
| "load_state_dict _ = Inl TypeError"

fun py_add_one :: "('t, 'f, 'x) env \<Rightarrow> ('t, 'f) pyobj \<Rightarrow> py_error + ('t, 'f) pyobj" where
  "py_add_one E (PyInt i) = Inr (PyInt (i + 1))"
| "py_add_one E (PyFloat x) = Inr (PyFloat (float_add E x (float_of_int E 1)))"
| "py_add_one E (StateDict _) = Inl TypeError"

fun py_range :: "('t, 'f) pyobj \<Rightarrow> int \<Rightarrow> py_error + int list" where
  "py_range (PyInt i) n = Inr [i..n - 1]"
| "py_range _ n = Inl TypeError"

definition checkpoint_path_0 :: string where
  "checkpoint_path_0 = ''pretrain_checkpoints/decoder_epoch_4.pt''"

definition resume_checkpoint ::
  "('t, 'f, 'x) env \<Rightarrow> ('t, 'f) trainer \<times> ('t, 'f, 'x) world \<Rightarrow>
     (('t, 'f) pyobj, ('t, 'f) trainer \<times> ('t, 'f, 'x) world) outcome" where
  "resume_checkpoint E = (\<lambda>(t, w).
     (let start_epoch = PyInt 0
      in if path_exists w checkpoint_path_0 then
           (case torch_load w checkpoint_path_0 of
              Inl e \<Rightarrow> Raised e (t, w)
            | Inr checkpoint \<Rightarrow>
           (case module_of (model t) of
              Inl e \<Rightarrow> Raised e (t, w)
            | Inr _ \<Rightarrow>
           (case chain (dict_get checkpoint ''model_state_dict'') load_state_dict of
              Inl e \<Rightarrow> Raised e (t, w)
            | Inr m \<Rightarrow>
           (let t1 = t\<lparr>model := DataParallel m\<rparr>
            in case chain (dict_get checkpoint ''optimizer_state_dict'') load_state_dict of
                 Inl e \<Rightarrow> Raised e (t1, w)
               | Inr opt \<Rightarrow>
           (let t2 = t1\<lparr>optimizer := opt\<rparr>
            in case dict_get checkpoint ''epoch'' of
                 Inl e \<Rightarrow> Raised e (t2, w)
               | Inr saved_epoch \<Rightarrow>
           (case py_add_one E saved_epoch of
              Inl e \<Rightarrow> Raised e (t2, w)
            | Inr start_epoch \<Rightarrow>
                Returned start_epoch
                  (t2, logging_info (ResumedTraining saved_epoch)
                         (py_print (LoadedCheckpoint saved_epoch) w))))))))
         else Returned start_epoch (t, w)))"

subsection \<open>The training loop\<close>

definition drop_last_column :: "'a list list \<Rightarrow> 'a list list" where
  "drop_last_column rows = map butlast rows"

definition drop_first_column :: "'a list list \<Rightarrow> 'a list list" where
  "drop_first_column rows = map tl rows"

definition tgt_key_padding_mask :: "int list list \<Rightarrow> bool list list" where
  "tgt_key_padding_mask attn_mask = map (map (\<lambda>a. a = 0)) attn_mask"

definition batch_body ::
  "('t, 'f, 'x) env \<Rightarrow> batch \<Rightarrow> ('t, 'f) trainer \<times> ('t, 'f, 'x) world \<Rightarrow>
     (unit, ('t, 'f) trainer \<times> ('t, 'f, 'x) world) outcome" where
  "batch_body E b = (\<lambda>(t, w).
     (let t1 = t\<lparr>step := step t + 1\<rparr>;
          decoder_input = drop_last_column (input_ids b);
          target = drop_first_column (input_ids b);
          attn_mask = drop_last_column (attention_mask b)
      in case train_step E (parameters (model t1)) (optimizer t1) decoder_input
                (tgt_key_padding_mask attn_mask) target of
           Inl e \<Rightarrow> Raised e (t1, w)
         | Inr (params, opt, l) \<Rightarrow>
             (let t2 = t1\<lparr>model := with_parameters (model t1) params, optimizer := opt,
                          loss := Some l, total_loss := float_add E (total_loss t1) l\<rparr>
              in if step t2 mod log_interval = 0 then
                   (let avg_train_loss =
                          float_div E (total_loss t2) (float_of_int E (int (step t2)))
                    in Returned () (t2, logging_info (StepLoss (step t2) avg_train_loss) w))
                 else Returned () (t2, w))))"

fun batch_loop ::
  "('t, 'f, 'x) env \<Rightarrow> batch list \<Rightarrow> ('t, 'f) trainer \<times> ('t, 'f, 'x) world \<Rightarrow>
     (unit, ('t, 'f) trainer \<times> ('t, 'f, 'x) world) outcome" where
  "batch_loop E [] s = Returned () s"
| "batch_loop E (b # rest) s = and_then (batch_body E b s) (\<lambda>_. batch_loop E rest)"

definition checkpoint_path_of :: "int \<Rightarrow> string" where
  "checkpoint_path_of epoch = ''pretrain_checkpoints/decoder_epoch_'' @ py_str epoch @ ''.pt''"

definition save_checkpoint ::
  "int \<Rightarrow> ('t, 'f) trainer \<times> ('t, 'f, 'x) world \<Rightarrow>
     (unit, ('t, 'f) trainer \<times> ('t, 'f, 'x) world) outcome" where
  "save_checkpoint epoch = (\<lambda>(t, w).
     (let checkpoint_path = checkpoint_path_of epoch
      in case module_of (model t) of
           Inl e \<Rightarrow> Raised e (t, w)
         | Inr m \<Rightarrow>
             (case loss t of
                None \<Rightarrow> Raised (UnboundLocalError ''loss'') (t, w)
              | Some l \<Rightarrow>
                  (case write_file checkpoint_path
                          (TorchFile
                             [(''epoch'', PyInt epoch),
                              (''model_state_dict'', StateDict m),
                              (''optimizer_state_dict'', StateDict (optimizer t)),
                              (''loss'', PyFloat l)]) w of
                     Raised e w1 \<Rightarrow> Raised e (t, w1)
                   | Returned _ w1 \<Rightarrow>
                       Returned () (t, py_print (SavedCheckpoint checkpoint_path) w1)))))"

definition epoch_body ::
  "('t, 'f, 'x) env \<Rightarrow> batch list \<Rightarrow> int \<Rightarrow> ('t, 'f) trainer \<times> ('t, 'f, 'x) world \<Rightarrow>
     (unit, ('t, 'f) trainer \<times> ('t, 'f, 'x) world) outcome" where
  "epoch_body E data_loader epoch = (\<lambda>(t, w).
     and_then (batch_loop E data_loader (t\<lparr>total_loss := float_of_int E 0\<rparr>, w))
       (\<lambda>_ (t1, w1).
          if length data_loader = 0 then Raised ZeroDivisionError (t1, w1)
          else
            (let log_msg =
                   EpochLoss (epoch + 1)
                     (float_div E (total_loss t1) (float_of_int E (int (length data_loader))));
                 w2 = logging_info log_msg (py_print log_msg w1)
             in if epoch mod save_every = 0 \<and> epoch \<noteq> 0
                then save_checkpoint epoch (t1, w2)
                else Returned () (t1, w2))))"

fun epoch_loop ::
  "('t, 'f, 'x) env \<Rightarrow> batch list \<Rightarrow> int list \<Rightarrow> ('t, 'f) trainer \<times> ('t, 'f, 'x) world \<Rightarrow>
     (unit, ('t, 'f) trainer \<times> ('t, 'f, 'x) world) outcome" where
  "epoch_loop E data_loader [] s = Returned () s"
| "epoch_loop E data_loader (epoch # rest) s =
     and_then (epoch_body E data_loader epoch s) (\<lambda>_. epoch_loop E data_loader rest)"

subsection \<open>main\<close>

text \<open>
  The statements of main in their order: the checkpoint directory, the corpus, the data
  loader over the training chunks, the model (wrapped when more than one accelerator is
  visible) and its optimizer, the resume step, and the epoch loop over
  \<open>range(start_epoch, num_epochs)\<close> with the step counter set to 0 before it. Logging
  configuration, the choice of device and \<open>model.train()\<close> change nothing that is
  observed here; the loss criterion is part of the training step. The locals are kept
  in the final state when the trainer has been built.
\<close>

definition main ::
  "('t, 'f, 'x) env \<Rightarrow> ('t, 'f, 'x) world \<Rightarrow>
     (unit, ('t, 'f) trainer option \<times> ('t, 'f, 'x) world) outcome" where
  "main E w =
     (case and_then (makedirs_exist_ok ''pretrain_checkpoints'' w)
             (\<lambda>_. prepare_pretrain_data E (remi E)) of
        Raised e w1 \<Rightarrow> Raised e (None, w1)
      | Returned _ w1 \<Rightarrow>
          (let midi_tokenizer = remi E;
               midi_paths = glob_mid E (files w1) ''pretrain_data/dataset_train'';
               data_loader = make_loader E midi_paths (files w1);
               (m, w2) = build_model E (length (vocab midi_tokenizer)) w1;
               t = \<lparr>model = m, optimizer = new_optimizer_state E (parameters m), step = 0,
                    total_loss = float_of_int E 0, loss = None\<rparr>
           in case and_then (resume_checkpoint E (t, w2))
                     (\<lambda>start_epoch (t1, w3).
                        case py_range start_epoch num_epochs of
                          Inl e \<Rightarrow> Raised e (t1, w3)
                        | Inr epochs \<Rightarrow> epoch_loop E data_loader epochs (t1\<lparr>step := 0\<rparr>, w3)) of
                Raised e (t2, w4) \<Rightarrow> Raised e (Some t2, w4)
              | Returned _ (t2, w4) \<Rightarrow> Returned () (Some t2, w4)))"


section \<open>Sample inputs\<close>

text \<open>
  A machine with the given number of accelerators: the download yields an archive of two
  files, the archive library writes them under a directory that does not exist yet
  (nothing else is asked of it here), the training directory holds chunks for one batch of one sequence, every
  training step succeeds and returns loss 1, and floats are read as rationals.
\<close>

definition example_env :: "nat \<Rightarrow> (nat, rat, unit) env" where
  "example_env gpus =
     \<lparr>gdown_download = (\<lambda>_. Inr (Some (ZipFile [(''a.mid'', OtherFile), (''b.mid'', OtherFile)]))),
      zipfile_extractall =
        (\<lambda>fs zp dir.
           case fs zp of
             Some (ZipFile [(first, n1), (second, n2)]) \<Rightarrow>
               if fs dir = None
               then Returned ()
                      (fs(dir \<mapsto> Directory, dir @ ''/'' @ first \<mapsto> n1,
                          dir @ ''/'' @ second \<mapsto> n2))
               else Raised (OSError dir) fs
           | _ \<Rightarrow> Raised BadZipFile fs),
      glob_mid = (\<lambda>_ _. []),
      split_files_for_training = (\<lambda>_ _ _ _ _ fs. Inr fs),
      remi = \<lparr>vocab = [(''PAD_None'', 0), (''BOS_None'', 1)], decode = (\<lambda>_. Inr ())\<rparr>,
      make_loader = (\<lambda>_ _. [\<lparr>input_ids = [[1, 5, 7]], attention_mask = [[1, 1, 1]]\<rparr>]),
      cuda_device_count = gpus,
      new_parameters = (\<lambda>_. 0),
      new_optimizer_state = (\<lambda>_. 0),
      train_step = (\<lambda>params opt _ _ _. Inr (params + 1, opt + 1, 1)),
      float_of_int = of_int,
      float_add = (+),
      float_div = (/)\<rparr>"

definition empty_world :: "(nat, rat, unit) world" where
  "empty_world = \<lparr>files = Map.empty, calls = [], stdout = [], logfile = []\<rparr>"

definition example_world :: "(nat, rat, unit) world" where
  "example_world = empty_world\<lparr>files := [''midis'' \<mapsto> Directory]\<rparr>"

definition example_checkpoint :: "(nat, rat) pydict" where
  "example_checkpoint =
     [(''epoch'', PyInt 4), (''model_state_dict'', StateDict 40),
      (''optimizer_state_dict'', StateDict 41), (''loss'', PyFloat 1)]"


section \<open>Rounding to a 53 bit significand\<close>

lemma bit_length_le_iff: "bit_length n \<le> k \<longleftrightarrow> n < 2 ^ k"
proof (induction n arbitrary: k rule: bit_length.induct)
  case (1 n)
  show ?case
  proof (cases "n = 0")
    case True
    then show ?thesis by (subst bit_length.simps) simp
  next
    case False
    show ?thesis
    proof (cases k)
      case 0
      with False show ?thesis by (subst bit_length.simps) simp
    next
      case (Suc j)
      have "bit_length n \<le> Suc j \<longleftrightarrow> bit_length (n div 2) \<le> j"
        using False by (subst bit_length.simps) simp
      also have "\<dots> \<longleftrightarrow> n div 2 < 2 ^ j"
        using "1.IH" [OF False] .
      also have "\<dots> \<longleftrightarrow> n < 2 ^ Suc j"
        by (simp add: div_less_iff_less_mult mult.commute)
      finally show ?thesis using Suc by simp
    qed
  qed
qed


lemma round_exact: "n < 2 ^ 53 \<Longrightarrow> round_half_even_53 n = n"
  by (simp add: round_half_even_53_def bit_length_le_iff)

lemma round_upper: "round_half_even_53 p \<le> p + 2 ^ (bit_length p - 54)"
proof (cases "bit_length p \<le> 53")
  case True
  then show ?thesis by (simp add: round_half_even_53_def)
next
  case False
  define s where "s = bit_length p - 53"
  define q where "q = p div 2 ^ s"
  define r where "r = p mod 2 ^ s"
  define h where "h = (2::nat) ^ (s - 1)"
  have s: "0 < s" using False by (simp add: s_def)
  have hh: "2 ^ s = 2 * h" using s by (cases s) (simp_all add: h_def)
  have p: "p = q * 2 ^ s + r"
    using div_mult_mod_eq [of p "2 ^ s"] by (simp add: q_def r_def)
  have R: "round_half_even_53 p = (if h < r \<or> (r = h \<and> odd q) then q + 1 else q) * 2 ^ s"
    using False by (simp add: round_half_even_53_def Let_def s_def q_def r_def h_def)
  have "round_half_even_53 p \<le> p + h"
    unfolding R using p hh by (auto simp: algebra_simps)
  moreover have "bit_length p - 54 = s - 1" by (simp add: s_def)
  ultimately show ?thesis by (simp add: h_def)
qed

lemma round_lower:
  assumes "m * 2 ^ k \<le> p" "bit_length p \<le> 53 + k"
  shows "m * 2 ^ k \<le> round_half_even_53 p"
proof (cases "bit_length p \<le> 53")
  case True
  then show ?thesis using assms by (simp add: round_half_even_53_def)
next
  case False
  define s where "s = bit_length p - 53"
  define q where "q = p div 2 ^ s"
  have sk: "s \<le> k" using assms(2) by (simp add: s_def)
  have R: "q * 2 ^ s \<le> round_half_even_53 p"
    using False by (simp add: round_half_even_53_def Let_def s_def q_def)
  have "m * 2 ^ k = (m * 2 ^ (k - s)) * 2 ^ s"
    using sk by (simp add: power_add [symmetric])
  moreover have "m * 2 ^ (k - s) \<le> q"
  proof -
    have "(m * 2 ^ (k - s)) * 2 ^ s \<le> p" using assms(1) calculation by simp
    then have "((m * 2 ^ (k - s)) * 2 ^ s) div 2 ^ s \<le> p div 2 ^ s" by (rule div_le_mono)
    then show ?thesis by (simp add: q_def)
  qed
  ultimately show ?thesis using R
    by (metis mult_le_mono1 order_trans)
qed


lemma product_small:
  assumes "n < 3 * 2 ^ 49"
  shows "round_half_even_53 (n * 7205759403792794) \<le> n * 7205759403792794 + 2 ^ 50"
proof -
  let ?p = "n * 7205759403792794"
  have "?p < 2 ^ 104" using assms by simp
  then have "bit_length ?p \<le> 104" by (simp only: bit_length_le_iff)
  then have "(2::nat) ^ (bit_length ?p - 54) \<le> 2 ^ 50"
    by (intro power_increasing) simp_all
  with round_upper [of ?p] show ?thesis by linarith
qed

lemma num_files_train_exact:
  assumes "n < 3 * 2 ^ 49"
  shows "num_files_train n = Inr ((8 * n) div 10)"
proof -
  let ?p = "n * 7205759403792794"
  let ?y = "round_half_even_53 ?p"
  let ?a = "(8 * n) div 10"
  have n53: "n < 2 ^ 53" using assms by simp
  have conv: "int_to_float n = Inr n"
    using n53 by (simp add: int_to_float_def round_exact Let_def)
  have "?p < 2 ^ 104" using assms by simp
  then have bl: "bit_length ?p \<le> 53 + 53" by (simp add: bit_length_le_iff)
  have "?a * 2 ^ 53 \<le> ?p" by simp
  then have lo: "?a * 2 ^ 53 \<le> ?y" using bl by (rule round_lower)
  have hi: "?y < (?a + 1) * 2 ^ 53"
    using product_small [OF assms] assms by simp
  have "?y div 2 ^ 53 = ?a"
    using lo hi by (intro div_nat_eqI) (simp_all add: mult.commute)
  then show ?thesis
    by (simp add: num_files_train_def int_of_product_def chain_def conv float_0_8_def)
qed

lemma num_files_valid_exact:
  assumes "n < 3 * 2 ^ 49"
  shows "num_files_valid n = Inr (n div 10)"
proof -
  let ?p = "n * 7205759403792794"
  let ?y = "round_half_even_53 ?p"
  let ?a = "n div 10"
  have n53: "n < 2 ^ 53" using assms by simp
  have conv: "int_to_float n = Inr n"
    using n53 by (simp add: int_to_float_def round_exact Let_def)
  have "?p < 2 ^ 104" using assms by simp
  then have bl: "bit_length ?p \<le> 53 + 56" by (simp add: bit_length_le_iff)
  have "?a * 2 ^ 56 \<le> ?p" by simp
  then have lo: "?a * 2 ^ 56 \<le> ?y" using bl by (rule round_lower)
  have hi: "?y < (?a + 1) * 2 ^ 56"
    using product_small [OF assms] assms by simp
  have "?y div 2 ^ 56 = ?a"
    using lo hi by (intro div_nat_eqI) (simp_all add: mult.commute)
  then show ?thesis
    by (simp add: num_files_valid_def int_of_product_def chain_def conv float_0_1_def)
qed






lemma bit_length_eqI: "2 ^ k \<le> n \<Longrightarrow> n < 2 ^ Suc k \<Longrightarrow> bit_length n = Suc k"
  using bit_length_le_iff [of n "Suc k"] bit_length_le_iff [of n k] by simp

text \<open>
  Below \<open>3 * 2 ^ 49\<close> the truncated double products are the exact floors
  (\<open>num_files_train_exact\<close>, \<open>num_files_valid_exact\<close>). The bound is where the double
  arithmetic first departs from them: there the product with 0.8 lies halfway between two
  doubles and rounds up to a whole number.
\<close>

lemma product_at_threshold:
  "round_half_even_53 12169445762191002929908294877184 = 12169445762191004055808201719808"
proof -
  have "bit_length 12169445762191002929908294877184 = Suc 103"
    by (rule bit_length_eqI) simp_all
  then show ?thesis
    by (simp add: round_half_even_53_def Let_def)
qed

lemma train_at_threshold: "num_files_train 1688849860263936 = Inr 1351079888211149"
proof -
  have conv: "int_to_float 1688849860263936 = Inr 1688849860263936"
    by (simp add: int_to_float_def round_exact Let_def)
  show ?thesis
    by (simp add: num_files_train_def int_of_product_def chain_def conv float_0_8_def
          product_at_threshold)
qed


section \<open>The split of the corpus\<close>

lemma split_subsets_succeeds:
  assumes "\<forall>ps d fs. \<exists>fs'. split_files_for_training E ps tok d max_len 2 fs = Inr fs'"
  shows "\<exists>w'. split_subsets E tok max_len subsets w = Returned () w'"
proof (induction subsets arbitrary: w)
  case Nil
  then show ?case by simp
next
  case (Cons s rest)
  obtain files_path subset_name where s: "s = (files_path, subset_name)" by (cases s)
  let ?w1 = "record_call
               (SplitFilesForTraining files_path (''pretrain_data/dataset_'' @ subset_name) max_len 2) w"
  from assms obtain fs where
    "split_files_for_training E files_path tok (''pretrain_data/dataset_'' @ subset_name) max_len 2
       (files ?w1) = Inr fs"
    by blast
  moreover from Cons.IH obtain w' where
    "split_subsets E tok max_len rest (?w1\<lparr>files := fs\<rparr>) = Returned () w'"
    by blast
  ultimately show ?case by (simp add: s Let_def)
qed

text \<open>
  C1. For every list of \<open>N\<close> paths that the splitter enumerates, \<open>N\<close> below
  \<open>3 * 2 ^ 49\<close> (a bound far beyond any list the interpreter can hold in memory),
  split_pretrain_data cuts the list into a train slice of \<open>floor(0.8 N)\<close> paths, a
  validation slice of \<open>floor(0.1 N)\<close> paths and a test slice of the remaining
  \<open>N - floor(0.8 N) - floor(0.1 N)\<close> paths. The slices are the first paths, the next
  paths and the last paths of the list, in its order; they concatenate to the list; when
  the list names each file once, no path is in two of them. Handed the list by the file
  system, split_pretrain_data returns whenever the chunking routine does, and when it
  returns it has passed exactly these three slices to the chunking routine, in this order.
\<close>

theorem split_pretrain_data_partition:
  assumes "length midi_paths < 3 * 2 ^ 49"
  shows "\<exists>train valid test.
           midi_paths_subsets midi_paths = Inr (train, valid, test)
         \<and> length train = (8 * length midi_paths) div 10
         \<and> length valid = length midi_paths div 10
         \<and> length test
             = length midi_paths - (8 * length midi_paths) div 10 - length midi_paths div 10
         \<and> train = take (length train) midi_paths
         \<and> valid = take (length valid) (drop (length train) midi_paths)
         \<and> test = drop (length train + length valid) midi_paths
         \<and> train @ valid @ test = midi_paths
         \<and> (distinct midi_paths \<longrightarrow>
               set train \<inter> set valid = {} \<and> set train \<inter> set test = {}
             \<and> set valid \<inter> set test = {})
         \<and> (\<forall>E dir tok max_len w.
               glob_mid E (files w) dir = midi_paths \<longrightarrow>
               ((\<forall>ps d fs. \<exists>fs'. split_files_for_training E ps tok d max_len 2 fs = Inr fs') \<longrightarrow>
                  (\<exists>w'. split_pretrain_data E dir tok max_len w = Returned () w'))
             \<and> (\<forall>w'. split_pretrain_data E dir tok max_len w = Returned () w' \<longrightarrow>
                   calls w' = calls w @
                     [SplitFilesForTraining train ''pretrain_data/dataset_train'' max_len 2,
                      SplitFilesForTraining valid ''pretrain_data/dataset_validation'' max_len 2,
                      SplitFilesForTraining test ''pretrain_data/dataset_test'' max_len 2]))"
proof -
  let ?n = "length midi_paths"
  let ?a = "(8 * ?n) div 10"
  let ?b = "?n div 10"
  let ?train = "take ?a midi_paths"
  let ?valid = "py_slice ?a (?a + ?b) midi_paths"
  let ?test = "drop (?a + ?b) midi_paths"
  have ab: "?a + ?b \<le> ?n" by simp
  have sub: "midi_paths_subsets midi_paths = Inr (?train, ?valid, ?test)"
    using assms
    by (simp add: midi_paths_subsets_def Let_def num_files_train_exact num_files_valid_exact
          chain_def)
  have valid': "?valid = take ?b (drop ?a midi_paths)"
    by (simp add: py_slice_def drop_take)
  have "?valid @ ?test = drop ?a midi_paths"
    unfolding valid' by (metis add.commute append_take_drop_id drop_drop)
  then have cat: "?train @ ?valid @ ?test = midi_paths"
    by simp
  have l1: "length ?train = ?a" using ab by simp
  have l2: "length ?valid = ?b" unfolding valid' using ab by simp
  have l3: "length ?test = ?n - ?a - ?b" by simp
  have s1: "?train = take (length ?train) midi_paths" by (simp only: l1)
  have s2: "?valid = take (length ?valid) (drop (length ?train) midi_paths)"
    by (metis l1 l2 valid')
  have s3: "?test = drop (length ?train + length ?valid) midi_paths" by (simp only: l1 l2)
  have dis: "set ?train \<inter> set ?valid = {} \<and> set ?train \<inter> set ?test = {}
             \<and> set ?valid \<inter> set ?test = {}"
    if "distinct midi_paths"
  proof -
    have "distinct (?train @ ?valid @ ?test)"
      using that by (simp only: cat)
    then show ?thesis
      by (simp only: distinct_append set_append Int_Un_distrib Un_empty)
  qed
  have returns: "\<exists>w'. split_pretrain_data E dir tok max_len w = Returned () w'"
    if g: "glob_mid E (files w) dir = midi_paths"
      and ok: "\<forall>ps d fs. \<exists>fs'. split_files_for_training E ps tok d max_len 2 fs = Inr fs'"
    for E :: "('t, 'f, 'x) env" and dir tok max_len w
    unfolding split_pretrain_data_def Let_def g sub
    using split_subsets_succeeds [OF ok] by (simp del: split_subsets.simps)
  have calls: "calls w' = calls w @
                 [SplitFilesForTraining ?train ''pretrain_data/dataset_train'' max_len 2,
                  SplitFilesForTraining ?valid ''pretrain_data/dataset_validation'' max_len 2,
                  SplitFilesForTraining ?test ''pretrain_data/dataset_test'' max_len 2]"
    if g: "glob_mid E (files w) dir = midi_paths"
      and r: "split_pretrain_data E dir tok max_len w = Returned () w'"
    for E :: "('t, 'f, 'x) env" and dir tok max_len w w'
  proof -
    have "split_subsets E tok max_len
            [(?train, ''train''), (?valid, ''validation''), (?test, ''test'')] w = Returned () w'"
      using r unfolding split_pretrain_data_def Let_def g sub by simp
    then show ?thesis
      by (auto simp add: Let_def record_call_def split: sum.splits)
  qed
  show ?thesis
    apply (rule exI [of _ ?train], rule exI [of _ ?valid], rule exI [of _ ?test])
    apply (intro conjI allI impI)
               apply (rule sub)
              apply (rule l1)
             apply (rule l2)
            apply (rule l3)
           apply (rule s1)
          apply (rule s2)
         apply (rule s3)
        apply (rule cat)
       apply (rule dis [THEN conjunct1], assumption)
      apply (rule dis [THEN conjunct2, THEN conjunct1], assumption)
     apply (rule dis [THEN conjunct2, THEN conjunct2], assumption)
    apply (erule (1) returns)
    apply (erule (1) calls)
    done
qed

theorem split_pretrain_data_partition_witness:
  "length [''a'', ''b'', ''c'', ''d'', ''e'', ''f'', ''g'', ''h'', ''i'', ''j''] < 3 * 2 ^ 49
   \<and> distinct [''a'', ''b'', ''c'', ''d'', ''e'', ''f'', ''g'', ''h'', ''i'', ''j'']
   \<and> midi_paths_subsets [''a'', ''b'', ''c'', ''d'', ''e'', ''f'', ''g'', ''h'', ''i'', ''j'']
       = Inr ([''a'', ''b'', ''c'', ''d'', ''e'', ''f'', ''g'', ''h''], [''i''], [''j''])
   \<and> set [''a'', ''b'', ''c'', ''d'', ''e'', ''f'', ''g'', ''h''] \<inter> set [''i''] = {}
   \<and> calls (final_state
        (split_pretrain_data
           (example_env 1
              \<lparr>glob_mid := (\<lambda>_ _. [''a'', ''b'', ''c'', ''d'', ''e'', ''f'', ''g'', ''h'', ''i'', ''j''])\<rparr>)
           ''midis'' (remi (example_env 1)) 1024 empty_world))
       = [SplitFilesForTraining [''a'', ''b'', ''c'', ''d'', ''e'', ''f'', ''g'', ''h'']
            ''pretrain_data/dataset_train'' 1024 2,
          SplitFilesForTraining [''i''] ''pretrain_data/dataset_validation'' 1024 2,
          SplitFilesForTraining [''j''] ''pretrain_data/dataset_test'' 1024 2]"
proof -
  let ?L = "[''a'', ''b'', ''c'', ''d'', ''e'', ''f'', ''g'', ''h'', ''i'', ''j'']"
  let ?E = "example_env 1\<lparr>glob_mid := (\<lambda>_ _. ?L)\<rparr>"
  have d: "distinct ?L" by simp
  have l: "length ?L < 3 * 2 ^ 49" by simp
  have g: "glob_mid ?E (files empty_world) ''midis'' = ?L" by simp
  have ok: "\<forall>ps d fs. \<exists>fs'. split_files_for_training ?E ps (remi (example_env 1)) d 1024 2 fs = Inr fs'"
    by (simp add: example_env_def)
  from split_pretrain_data_partition [OF l] obtain train valid test where
    sub: "midi_paths_subsets ?L = Inr (train, valid, test)"
    and lt: "length train = (8 * length ?L) div 10"
    and lv: "length valid = length ?L div 10"
    and cat: "train @ valid @ test = ?L"
    and dis: "distinct ?L \<longrightarrow> set train \<inter> set valid = {} \<and> set train \<inter> set test = {}
             \<and> set valid \<inter> set test = {}"
    and run: "\<forall>(E :: (nat, rat, unit) env) dir tok max_len w.
               glob_mid E (files w) dir = ?L \<longrightarrow>
               ((\<forall>ps d fs. \<exists>fs'. split_files_for_training E ps tok d max_len 2 fs = Inr fs') \<longrightarrow>
                  (\<exists>w'. split_pretrain_data E dir tok max_len w = Returned () w'))
             \<and> (\<forall>w'. split_pretrain_data E dir tok max_len w = Returned () w' \<longrightarrow>
                   calls w' = calls w @
                     [SplitFilesForTraining train ''pretrain_data/dataset_train'' max_len 2,
                      SplitFilesForTraining valid ''pretrain_data/dataset_validation'' max_len 2,
                      SplitFilesForTraining test ''pretrain_data/dataset_test'' max_len 2])"
    by blast
  have "length train = 8" "length valid = 1" using lt lv by simp_all
  then have "train = take 8 ?L" "valid = take 1 (drop 8 ?L)" "test = drop 9 ?L"
    using cat by (auto simp: append_eq_conv_conj)
  then have tvt: "train = [''a'', ''b'', ''c'', ''d'', ''e'', ''f'', ''g'', ''h'']"
    "valid = [''i'']" "test = [''j'']"
    by simp_all
  note at = run [THEN spec, THEN spec, THEN spec, THEN spec, THEN spec, THEN mp, OF g,
    of "remi (example_env 1)" 1024]
  from at [THEN conjunct1, THEN mp, OF ok] obtain w' where
    r: "split_pretrain_data ?E ''midis'' (remi (example_env 1)) 1024 empty_world = Returned () w'"
    by blast
  from at [THEN conjunct2, THEN spec, THEN mp, OF r]
  have c: "calls w' =
       [SplitFilesForTraining train ''pretrain_data/dataset_train'' 1024 2,
        SplitFilesForTraining valid ''pretrain_data/dataset_validation'' 1024 2,
        SplitFilesForTraining test ''pretrain_data/dataset_test'' 1024 2]"
    by (simp add: empty_world_def)
  from dis d have "set train \<inter> set valid = {}" by blast
  with sub l d c r show ?thesis unfolding tvt by simp
qed




section \<open>The token to MIDI converter\<close>

lemma dom_fold_vocab:
  "dom (fold (\<lambda>(k, v) m. m(v \<mapsto> k)) items m0) = dom m0 \<union> snd ` set items"
  by (induction items arbitrary: m0) (auto simp: image_iff)

lemma dom_id_to_token_of: "dom (id_to_token_of items) = snd ` set items"
  by (simp add: id_to_token_of_def dom_fold_vocab)

lemma lookup_tokens_missing:
  assumes "\<exists>i \<in> set token_ids. i \<notin> dom m"
  shows "\<exists>k. lookup_tokens m token_ids = Inl (KeyError (IntKey k)) \<and> k \<in> set token_ids \<and> k \<notin> dom m"
  using assms
proof (induction token_ids)
  case Nil
  then show ?case by simp
next
  case (Cons i rest)
  show ?case
  proof (cases "m i")
    case None
    then show ?thesis by (auto simp: domIff)
  next
    case (Some token)
    then have "\<exists>j \<in> set rest. j \<notin> dom m" using Cons.prems by auto
    from Cons.IH [OF this] obtain k where
      "lookup_tokens m rest = Inl (KeyError (IntKey k))" "k \<in> set rest" "k \<notin> dom m"
      by blast
    with Some show ?thesis by (auto simp: chain_def)
  qed
qed

text \<open>
  C5. When some element of the token-id sequence is not an id of the tokenizer's
  vocabulary, convert_to_midi raises KeyError for the first such id and leaves every file
  as it was: neither the token dump nor the output file is written. When the ids of the
  vocabulary are exactly \<open>0, \<dots>, vocab_size - 1\<close>, this is the case for every sequence
  with an element outside \<open>[0, vocab_size)\<close>.
\<close>

theorem convert_to_midi_unknown_id:
  "((\<exists>i \<in> set token_ids. i \<notin> snd ` set (vocab tok)) \<longrightarrow>
      (\<exists>k. convert_to_midi token_ids tok dump_path w = Raised (KeyError (IntKey k)) w
           \<and> k \<in> set token_ids \<and> k \<notin> snd ` set (vocab tok)))
   \<and> (snd ` set (vocab tok) = {0 ..< int (length (vocab tok))} \<longrightarrow>
      (\<exists>i \<in> set token_ids. i < 0 \<or> int (length (vocab tok)) \<le> i) \<longrightarrow>
      (\<exists>k. convert_to_midi token_ids tok dump_path w = Raised (KeyError (IntKey k)) w
           \<and> k \<in> set token_ids \<and> (k < 0 \<or> int (length (vocab tok)) \<le> k)))"
proof -
  have main: "\<exists>k. convert_to_midi token_ids tok dump_path w = Raised (KeyError (IntKey k)) w
           \<and> k \<in> set token_ids \<and> k \<notin> snd ` set (vocab tok)"
    if "\<exists>i \<in> set token_ids. i \<notin> snd ` set (vocab tok)"
  proof -
    from that have "\<exists>i \<in> set token_ids. i \<notin> dom (id_to_token_of (vocab tok))"
      by (simp add: dom_id_to_token_of)
    from lookup_tokens_missing [OF this] obtain k where
      "lookup_tokens (id_to_token_of (vocab tok)) token_ids = Inl (KeyError (IntKey k))"
      "k \<in> set token_ids" "k \<notin> snd ` set (vocab tok)"
      by (auto simp: dom_id_to_token_of)
    then show ?thesis by (auto simp: convert_to_midi_def Let_def)
  qed
  show ?thesis
  proof (intro conjI impI)
    assume "\<exists>i \<in> set token_ids. i \<notin> snd ` set (vocab tok)"
    then show "\<exists>k. convert_to_midi token_ids tok dump_path w = Raised (KeyError (IntKey k)) w
           \<and> k \<in> set token_ids \<and> k \<notin> snd ` set (vocab tok)"
      by (rule main)
  next
    assume dense: "snd ` set (vocab tok) = {0 ..< int (length (vocab tok))}"
      and out: "\<exists>i \<in> set token_ids. i < 0 \<or> int (length (vocab tok)) \<le> i"
    from out obtain i where "i \<in> set token_ids" "i < 0 \<or> int (length (vocab tok)) \<le> i"
      by blast
    then have "i \<notin> {0 ..< int (length (vocab tok))}" by auto
    with \<open>i \<in> set token_ids\<close> have "\<exists>i \<in> set token_ids. i \<notin> snd ` set (vocab tok)"
      unfolding dense by blast
    from main [OF this] show "\<exists>k. convert_to_midi token_ids tok dump_path w = Raised (KeyError (IntKey k)) w
           \<and> k \<in> set token_ids \<and> (k < 0 \<or> int (length (vocab tok)) \<le> k)"
      unfolding dense by auto
  qed
qed

theorem convert_to_midi_unknown_id_witness:
  "convert_to_midi [0, 1, 7, 1]
     \<lparr>vocab = [(''PAD_None'', 0), (''BOS_None'', 1), (''Bar_None'', 2)], decode = (\<lambda>_. Inr ())\<rparr>
     ''out.mid''
     (\<lparr>files = Map.empty, calls = [], stdout = [], logfile = []\<rparr> :: (unit, unit, unit) world)
   = Raised (KeyError (IntKey 7)) \<lparr>files = Map.empty, calls = [], stdout = [], logfile = []\<rparr>"
proof -
  let ?tok = "\<lparr>vocab = [(''PAD_None'', 0), (''BOS_None'', 1), (''Bar_None'', 2)],
                decode = (\<lambda>_. Inr ())\<rparr> :: unit tokenizer"
  let ?w = "\<lparr>files = Map.empty, calls = [], stdout = [], logfile = []\<rparr> :: (unit, unit, unit) world"
  have dense: "snd ` set (vocab ?tok) = {0 ..< int (length (vocab ?tok))}"
    by (auto simp: image_iff)
  have out: "\<exists>i \<in> set [0, 1, 7, 1]. i < 0 \<or> int (length (vocab ?tok)) \<le> i"
    by simp
  have unknown: "\<exists>i \<in> set [0, 1, 7, 1 :: int]. i \<notin> snd ` set (vocab ?tok)"
    by simp
  from convert_to_midi_unknown_id [of "[0, 1, 7, 1]" ?tok "''out.mid''" ?w] dense out unknown
  obtain k where "convert_to_midi [0, 1, 7, 1] ?tok ''out.mid'' ?w = Raised (KeyError (IntKey k)) ?w"
    and "k \<in> set [0, 1, 7, 1]" and "k < 0 \<or> int (length (vocab ?tok)) \<le> k"
    by blast
  moreover then have "k = 7" by auto
  ultimately show ?thesis by simp
qed


section \<open>The evaluation metrics\<close>

text \<open>
  C8. For every MIDI path and every behaviour of the music-analysis library,
  get_eval_metrics raises before it returns; when the file is read and the first three
  metrics are computed, the exception is the NameError for the name \<open>py\<close>.
\<close>

theorem get_eval_metrics_fails:
  "(\<exists>e. get_eval_metrics lib midi_path = Inl e)
   \<and> (\<forall>music a b c.
         read_midi lib midi_path = Inr music \<longrightarrow> pitch_range lib music = Inr a \<longrightarrow>
         n_pitches_used lib music = Inr b \<longrightarrow> n_pitch_classes_used lib music = Inr c \<longrightarrow>
         get_eval_metrics lib midi_path = Inl (NameError ''py''))"
proof -
  have py: "resolve_global ''py'' = Inl (NameError ''py'')"
    by (simp add: resolve_global_def utils_globals_def)
  have "\<exists>e. get_eval_metrics lib midi_path = Inl e"
    unfolding get_eval_metrics_def py
    by (auto simp: chain_def split: sum.splits)
  moreover have "get_eval_metrics lib midi_path = Inl (NameError ''py'')"
    if "read_midi lib midi_path = Inr music" "pitch_range lib music = Inr a"
      "n_pitches_used lib music = Inr b" "n_pitch_classes_used lib music = Inr c"
    for music a b c
    unfolding get_eval_metrics_def py using that by (simp add: chain_def)
  ultimately show ?thesis by blast
qed

theorem get_eval_metrics_fails_witness:
  "get_eval_metrics
     \<lparr>read_midi = (\<lambda>p. Inr p), pitch_range = (\<lambda>_. Inr (24::nat)),
      n_pitches_used = (\<lambda>_. Inr 12), n_pitch_classes_used = (\<lambda>_. Inr 7),
      polyphony = (\<lambda>_. Inr 2), polyphony_rate = (\<lambda>_. Inr 1),
      empty_beat_rate = (\<lambda>_. Inr 0)\<rparr> ''song.mid'' = Inl (NameError ''py'')"
  using get_eval_metrics_fails
    [of "\<lparr>read_midi = (\<lambda>p. Inr p), pitch_range = (\<lambda>_. Inr (24::nat)),
      n_pitches_used = (\<lambda>_. Inr 12), n_pitch_classes_used = (\<lambda>_. Inr 7),
      polyphony = (\<lambda>_. Inr 2), polyphony_rate = (\<lambda>_. Inr 1),
      empty_beat_rate = (\<lambda>_. Inr 0)\<rparr>" "''song.mid''"]
  by simp


section \<open>The corpus acquisition\<close>

lemma final_state_and_then:
  "final_state (and_then r f)
   = (case r of Raised e s \<Rightarrow> s | Returned v s \<Rightarrow> final_state (f v s))"
  by (cases r) (simp_all add: and_then_def)

lemma os_remove_cases:
  "os_remove p w
   = (if files w p = None \<or> files w p = Some Directory then Raised (OSError p) w
      else Returned () (w\<lparr>files := (files w)(p := None)\<rparr>))"
  by (simp add: os_remove_def split: option.splits node.splits)

lemma load_pretrain_data_download_raises:
  assumes "gdown_download E url = Inl e"
  shows "load_pretrain_data E url zp dir w
         = Raised e (record_call (Download url zp)
                       (py_print (Text ''downloading pretrain data: '') w))"
  using assms by (simp add: load_pretrain_data_def Let_def)

lemma load_pretrain_data_extract_raises:
  assumes "gdown_download E url = Inr fetched"
    and "zipfile_extractall E (case fetched of None \<Rightarrow> files w | Some n \<Rightarrow> (files w)(zp \<mapsto> n))
           zp dir = Raised e fs"
  shows "\<exists>w1. load_pretrain_data E url zp dir w = Raised e w1
             \<and> calls w1 = calls w @ [Download url zp, ExtractAll zp dir] \<and> files w1 = fs"
  using assms
  by (cases fetched) (simp_all add: load_pretrain_data_def Let_def record_call_def py_print_def)

lemma load_pretrain_data_extract_returns:
  assumes "gdown_download E url = Inr fetched"
    and "zipfile_extractall E (case fetched of None \<Rightarrow> files w | Some n \<Rightarrow> (files w)(zp \<mapsto> n))
           zp dir = Returned () fs"
  shows "if fs zp = None \<or> fs zp = Some Directory
         then \<exists>w1. load_pretrain_data E url zp dir w = Raised (OSError zp) w1
                  \<and> calls w1 = calls w @ [Download url zp, ExtractAll zp dir, Remove zp]
                  \<and> files w1 = fs
         else \<exists>w1. load_pretrain_data E url zp dir w = Returned dir w1
                  \<and> calls w1 = calls w @ [Download url zp, ExtractAll zp dir, Remove zp]
                  \<and> files w1 = fs(zp := None) \<and> \<not> path_exists w1 zp"
  using assms
  by (cases fetched)
    (simp_all add: load_pretrain_data_def Let_def record_call_def py_print_def os_remove_cases
      path_exists_def)

lemma load_pretrain_data_final_calls:
  "\<exists>rest. calls (final_state (load_pretrain_data E url zp dir w))
            = calls w @ Download url zp # rest
         \<and> (rest = [] \<or> rest = [ExtractAll zp dir] \<or> rest = [ExtractAll zp dir, Remove zp])"
proof (cases "gdown_download E url")
  case (Inl e)
  then show ?thesis
    by (simp add: load_pretrain_data_download_raises record_call_def py_print_def)
next
  case (Inr fetched)
  let ?fs0 = "case fetched of None \<Rightarrow> files w | Some n \<Rightarrow> (files w)(zp \<mapsto> n)"
  show ?thesis
  proof (cases "zipfile_extractall E ?fs0 zp dir")
    case (Raised e fs)
    from load_pretrain_data_extract_raises [OF Inr Raised] show ?thesis by auto
  next
    case (Returned u fs)
    then have "zipfile_extractall E ?fs0 zp dir = Returned () fs" by simp
    from load_pretrain_data_extract_returns [OF Inr this] show ?thesis
      by (auto split: if_splits)
  qed
qed

lemma load_pretrain_data_Returned_calls:
  assumes "load_pretrain_data E url zp dir w = Returned v w1"
  shows "v = dir \<and> calls w1 = calls w @ [Download url zp, ExtractAll zp dir, Remove zp]
       \<and> \<not> path_exists w1 zp"
proof (cases "gdown_download E url")
  case (Inl e)
  with assms show ?thesis by (simp add: load_pretrain_data_download_raises)
next
  case (Inr fetched)
  let ?fs0 = "case fetched of None \<Rightarrow> files w | Some n \<Rightarrow> (files w)(zp \<mapsto> n)"
  show ?thesis
  proof (cases "zipfile_extractall E ?fs0 zp dir")
    case (Raised e fs)
    from load_pretrain_data_extract_raises [OF Inr Raised] assms show ?thesis by auto
  next
    case (Returned u fs)
    then have "zipfile_extractall E ?fs0 zp dir = Returned () fs" by simp
    from load_pretrain_data_extract_returns [OF Inr this] assms show ?thesis
      by (auto split: if_splits)
  qed
qed

lemma split_subsets_final_calls:
  "\<exists>rest. calls (final_state (split_subsets E tok max_len subsets w)) = calls w @ rest
         \<and> (\<forall>c \<in> set rest. \<exists>ps d m k. c = SplitFilesForTraining ps d m k)"
proof (induction subsets arbitrary: w)
  case Nil
  then show ?case by simp
next
  case (Cons s rest)
  obtain files_path subset_name where s: "s = (files_path, subset_name)" by (cases s)
  let ?c = "SplitFilesForTraining files_path (''pretrain_data/dataset_'' @ subset_name) max_len 2"
  let ?w1 = "record_call ?c w"
  show ?case
  proof (cases "split_files_for_training E files_path tok
                  (''pretrain_data/dataset_'' @ subset_name) max_len 2 (files ?w1)")
    case (Inl e)
    then have "calls (final_state (split_subsets E tok max_len (s # rest) w)) = calls w @ [?c]"
      by (simp add: s Let_def record_call_def)
    then show ?thesis by auto
  next
    case (Inr fs)
    from Cons.IH [of "?w1\<lparr>files := fs\<rparr>"] obtain more where
      "calls (final_state (split_subsets E tok max_len rest (?w1\<lparr>files := fs\<rparr>)))
       = calls (?w1\<lparr>files := fs\<rparr>) @ more"
      and "\<forall>c \<in> set more. \<exists>ps d m k. c = SplitFilesForTraining ps d m k"
      by blast
    with Inr have "calls (final_state (split_subsets E tok max_len (s # rest) w))
                   = calls w @ (?c # more)
                 \<and> (\<forall>c \<in> set (?c # more). \<exists>ps d m k. c = SplitFilesForTraining ps d m k)"
      by (simp add: s Let_def record_call_def)
    then show ?thesis by blast
  qed
qed

lemma split_pretrain_data_final_calls:
  "\<exists>rest. calls (final_state (split_pretrain_data E dir tok max_len w)) = calls w @ rest
         \<and> (\<forall>c \<in> set rest. \<exists>ps d m k. c = SplitFilesForTraining ps d m k)"
proof (cases "midi_paths_subsets (glob_mid E (files w) dir)")
  case (Inl e)
  then show ?thesis by (simp add: split_pretrain_data_def Let_def)
next
  case (Inr subsets)
  obtain a b c where "subsets = (a, b, c)" by (cases subsets)
  with Inr have "split_pretrain_data E dir tok max_len w
                 = split_subsets E tok max_len [(a, ''train''), (b, ''validation''), (c, ''test'')] w"
    by (simp add: split_pretrain_data_def Let_def)
  then show ?thesis by (simp only: split_subsets_final_calls)
qed

lemma prepare_pretrain_data_final_calls:
  assumes "\<not> path_exists w ''midis''"
  shows "\<exists>rest. calls (final_state (prepare_pretrain_data E tok w))
            = calls w @
              Download ''https://drive.google.com/uc?id=1BDEPaEWFEB2ADquS1VYp5iLZYVngw799''
                ''midis.zip'' # rest
         \<and> (\<forall>c \<in> set rest. \<forall>u p. c \<noteq> Download u p)
         \<and> (\<forall>c \<in> set (tl rest). \<forall>z d. c \<noteq> ExtractAll z d)"
proof -
  let ?url = "''https://drive.google.com/uc?id=1BDEPaEWFEB2ADquS1VYp5iLZYVngw799''"
  let ?load = "load_pretrain_data E ?url ''midis.zip'' ''midis'' w"
  have p: "prepare_pretrain_data E tok w
           = and_then ?load (\<lambda>_. split_pretrain_data E ''midis'' tok 1024)"
    using assms by (simp add: prepare_pretrain_data_def Let_def)
  from load_pretrain_data_final_calls [of E ?url "''midis.zip''" "''midis''" w] obtain r1 where
    c1: "calls (final_state ?load) = calls w @ Download ?url ''midis.zip'' # r1"
    and r1: "r1 = [] \<or> r1 = [ExtractAll ''midis.zip'' ''midis'']
             \<or> r1 = [ExtractAll ''midis.zip'' ''midis'', Remove ''midis.zip'']"
    by blast
  show ?thesis
  proof (cases ?load)
    case (Raised e w1)
    then have "final_state (prepare_pretrain_data E tok w) = final_state ?load"
      by (simp add: p and_then_def)
    with c1 r1 show ?thesis by auto
  next
    case (Returned v w1)
    from load_pretrain_data_Returned_calls [OF Returned]
    have c: "calls w1 = calls w @ [Download ?url ''midis.zip'', ExtractAll ''midis.zip'' ''midis'',
                                   Remove ''midis.zip'']"
      by simp
    from split_pretrain_data_final_calls [of E "''midis''" tok 1024 w1] obtain r2 where
      "calls (final_state (split_pretrain_data E ''midis'' tok 1024 w1)) = calls w1 @ r2"
      and "\<forall>c \<in> set r2. \<exists>ps d m k. c = SplitFilesForTraining ps d m k"
      by blast
    with c Returned have
      "calls (final_state (prepare_pretrain_data E tok w))
       = calls w @ Download ?url ''midis.zip'' #
           ([ExtractAll ''midis.zip'' ''midis'', Remove ''midis.zip''] @ r2)
       \<and> (\<forall>c \<in> set ([ExtractAll ''midis.zip'' ''midis'', Remove ''midis.zip''] @ r2).
             \<forall>u p. c \<noteq> Download u p)
       \<and> (\<forall>c \<in> set (tl ([ExtractAll ''midis.zip'' ''midis'', Remove ''midis.zip''] @ r2)).
             \<forall>z d. c \<noteq> ExtractAll z d)"
      by (auto simp: p and_then_def)
    then show ?thesis by blast
  qed
qed

text \<open>
  C4. When the path \<open>midis\<close> exists, the acquisition step of main returns at once and
  changes nothing: no download, no extraction. When it does not exist, the step is
  load_pretrain_data followed by the split; however it ends, it has made exactly one
  download call, first, and at most one extraction call, directly after it; when it
  returns, its calls are one download, one extraction and one removal of the archive,
  then only calls of the chunking routine. For load_pretrain_data itself: when the
  download raises, that is the only call and no file has changed; when the archive
  library raises, the download and the extraction are the only calls and the files are
  as the library left them; when the extraction returns, the archive file is removed
  (an OSError when there is no such file to remove), and on return the calls are exactly
  download, extraction, removal and the archive path no longer exists.
\<close>

theorem corpus_acquisition:
  "(path_exists w ''midis'' \<longrightarrow> prepare_pretrain_data E tok w = Returned () w)
   \<and> (\<not> path_exists w ''midis'' \<longrightarrow>
        prepare_pretrain_data E tok w
          = and_then
              (load_pretrain_data E
                 ''https://drive.google.com/uc?id=1BDEPaEWFEB2ADquS1VYp5iLZYVngw799''
                 ''midis.zip'' ''midis'' w)
              (\<lambda>_. split_pretrain_data E ''midis'' tok 1024)
      \<and> (\<exists>rest.
            calls (final_state (prepare_pretrain_data E tok w))
              = calls w @
                Download ''https://drive.google.com/uc?id=1BDEPaEWFEB2ADquS1VYp5iLZYVngw799''
                  ''midis.zip'' # rest
          \<and> (\<forall>c \<in> set rest. \<forall>u p. c \<noteq> Download u p)
          \<and> (\<forall>c \<in> set (tl rest). \<forall>z d. c \<noteq> ExtractAll z d))
      \<and> (\<forall>w'. prepare_pretrain_data E tok w = Returned () w' \<longrightarrow>
           (\<exists>rest.
              calls w' = calls w @
                [Download ''https://drive.google.com/uc?id=1BDEPaEWFEB2ADquS1VYp5iLZYVngw799''
                   ''midis.zip'',
                 ExtractAll ''midis.zip'' ''midis'', Remove ''midis.zip''] @ rest
            \<and> (\<forall>c \<in> set rest. \<exists>ps d m k. c = SplitFilesForTraining ps d m k))))
   \<and> (\<forall>e. gdown_download E url = Inl e \<longrightarrow>
        (\<exists>w1. load_pretrain_data E url zp dir w = Raised e w1
             \<and> calls w1 = calls w @ [Download url zp] \<and> files w1 = files w))
   \<and> (\<forall>fetched. gdown_download E url = Inr fetched \<longrightarrow>
        (\<forall>e fs.
           zipfile_extractall E
             (case fetched of None \<Rightarrow> files w | Some n \<Rightarrow> (files w)(zp \<mapsto> n)) zp dir
             = Raised e fs \<longrightarrow>
           (\<exists>w1. load_pretrain_data E url zp dir w = Raised e w1
                \<and> calls w1 = calls w @ [Download url zp, ExtractAll zp dir]
                \<and> files w1 = fs))
      \<and> (\<forall>fs.
           zipfile_extractall E
             (case fetched of None \<Rightarrow> files w | Some n \<Rightarrow> (files w)(zp \<mapsto> n)) zp dir
             = Returned () fs \<longrightarrow>
           (fs zp = None \<or> fs zp = Some Directory \<longrightarrow>
              (\<exists>w1. load_pretrain_data E url zp dir w = Raised (OSError zp) w1
                   \<and> calls w1 = calls w @ [Download url zp, ExtractAll zp dir, Remove zp]
                   \<and> files w1 = fs))
         \<and> (fs zp \<noteq> None \<and> fs zp \<noteq> Some Directory \<longrightarrow>
              (\<exists>w1. load_pretrain_data E url zp dir w = Returned dir w1
                   \<and> calls w1 = calls w @ [Download url zp, ExtractAll zp dir, Remove zp]
                   \<and> files w1 = fs(zp := None) \<and> \<not> path_exists w1 zp))))
   \<and> (\<forall>v w1. load_pretrain_data E url zp dir w = Returned v w1 \<longrightarrow>
        v = dir \<and> calls w1 = calls w @ [Download url zp, ExtractAll zp dir, Remove zp]
      \<and> \<not> path_exists w1 zp)"
proof (intro conjI impI allI)
  let ?url = "''https://drive.google.com/uc?id=1BDEPaEWFEB2ADquS1VYp5iLZYVngw799''"
  {
    assume "path_exists w ''midis''"
    then show "prepare_pretrain_data E tok w = Returned () w"
      by (simp add: prepare_pretrain_data_def)
  }
  {
    assume absent: "\<not> path_exists w ''midis''"
    then show p: "prepare_pretrain_data E tok w
          = and_then (load_pretrain_data E ?url ''midis.zip'' ''midis'' w)
              (\<lambda>_. split_pretrain_data E ''midis'' tok 1024)"
      by (simp add: prepare_pretrain_data_def Let_def)
    from absent show "\<exists>rest.
            calls (final_state (prepare_pretrain_data E tok w))
              = calls w @ Download ?url ''midis.zip'' # rest
          \<and> (\<forall>c \<in> set rest. \<forall>u p. c \<noteq> Download u p)
          \<and> (\<forall>c \<in> set (tl rest). \<forall>z d. c \<noteq> ExtractAll z d)"
      by (rule prepare_pretrain_data_final_calls)
    fix w'
    assume r: "prepare_pretrain_data E tok w = Returned () w'"
    from r p obtain v w1 where
      l: "load_pretrain_data E ?url ''midis.zip'' ''midis'' w = Returned v w1"
      and s: "split_pretrain_data E ''midis'' tok 1024 w1 = Returned () w'"
      by (cases "load_pretrain_data E ?url ''midis.zip'' ''midis'' w")
        (simp_all add: and_then_def)
    from load_pretrain_data_Returned_calls [OF l]
    have c1: "calls w1 = calls w @ [Download ?url ''midis.zip'', ExtractAll ''midis.zip'' ''midis'',
                                    Remove ''midis.zip'']"
      by blast
    from split_pretrain_data_final_calls [of E "''midis''" tok 1024 w1] s obtain rest where
      "calls w' = calls w1 @ rest" "\<forall>c \<in> set rest. \<exists>ps d m k. c = SplitFilesForTraining ps d m k"
      by auto
    with c1 show "\<exists>rest.
              calls w' = calls w @
                [Download ?url ''midis.zip'', ExtractAll ''midis.zip'' ''midis'',
                 Remove ''midis.zip''] @ rest
            \<and> (\<forall>c \<in> set rest. \<exists>ps d m k. c = SplitFilesForTraining ps d m k)"
      by auto
  }
  {
    fix e
    assume "gdown_download E url = Inl e"
    then show "\<exists>w1. load_pretrain_data E url zp dir w = Raised e w1
             \<and> calls w1 = calls w @ [Download url zp] \<and> files w1 = files w"
      by (simp add: load_pretrain_data_download_raises record_call_def py_print_def)
  }
  {
    fix fetched
    assume f: "gdown_download E url = Inr fetched"
    let ?fs0 = "case fetched of None \<Rightarrow> files w | Some n \<Rightarrow> (files w)(zp \<mapsto> n)"
    {
      fix e fs
      assume "zipfile_extractall E ?fs0 zp dir = Raised e fs"
      with f show "\<exists>w1. load_pretrain_data E url zp dir w = Raised e w1
                \<and> calls w1 = calls w @ [Download url zp, ExtractAll zp dir]
                \<and> files w1 = fs"
        by (rule load_pretrain_data_extract_raises)
    }
    {
      fix fs
      assume x: "zipfile_extractall E ?fs0 zp dir = Returned () fs"
      note cases = load_pretrain_data_extract_returns [OF f x]
      {
        assume "fs zp = None \<or> fs zp = Some Directory"
        with cases show "\<exists>w1. load_pretrain_data E url zp dir w = Raised (OSError zp) w1
                   \<and> calls w1 = calls w @ [Download url zp, ExtractAll zp dir, Remove zp]
                   \<and> files w1 = fs"
          by simp
      }
      {
        assume "fs zp \<noteq> None \<and> fs zp \<noteq> Some Directory"
        with cases show "\<exists>w1. load_pretrain_data E url zp dir w = Returned dir w1
                   \<and> calls w1 = calls w @ [Download url zp, ExtractAll zp dir, Remove zp]
                   \<and> files w1 = fs(zp := None) \<and> \<not> path_exists w1 zp"
          by simp
      }
    }
  }
  {
    fix v w1
    assume r: "load_pretrain_data E url zp dir w = Returned v w1"
    from load_pretrain_data_Returned_calls [OF r]
    show "v = dir" "calls w1 = calls w @ [Download url zp, ExtractAll zp dir, Remove zp]"
      "\<not> path_exists w1 zp"
      by simp_all
  }
qed

lemma midi_paths_subsets_Nil: "midi_paths_subsets [] = Inr ([], [], [])"
  by (simp add: midi_paths_subsets_def num_files_train_exact num_files_valid_exact chain_def
      py_slice_def)

lemma example_prepare:
  "prepare_pretrain_data (example_env 1) (remi (example_env 1)) empty_world
   = Returned ()
       \<lparr>files = [''midis'' \<mapsto> Directory, ''midis/a.mid'' \<mapsto> OtherFile,
                 ''midis/b.mid'' \<mapsto> OtherFile],
        calls =
          [Download ''https://drive.google.com/uc?id=1BDEPaEWFEB2ADquS1VYp5iLZYVngw799''
             ''midis.zip'',
           ExtractAll ''midis.zip'' ''midis'', Remove ''midis.zip'',
           SplitFilesForTraining [] ''pretrain_data/dataset_train'' 1024 2,
           SplitFilesForTraining [] ''pretrain_data/dataset_validation'' 1024 2,
           SplitFilesForTraining [] ''pretrain_data/dataset_test'' 1024 2],
        stdout = [Text ''downloading pretrain data: '', Text ''unzipping pretrain data: '',
                  Text ''pretrain data unzipped.'', Text ''removed zip file''],
        logfile = []\<rparr>"
  by (auto simp: prepare_pretrain_data_def path_exists_def empty_world_def and_then_def
      load_pretrain_data_def example_env_def Let_def record_call_def py_print_def os_remove_def
      split_pretrain_data_def midi_paths_subsets_Nil fun_eq_iff)

lemma example_prepare_offline:
  "prepare_pretrain_data
     (example_env 1\<lparr>gdown_download := (\<lambda>_. Inl (LibraryError ''network''))\<rparr>)
     (remi (example_env 1)) empty_world
   = Raised (LibraryError ''network'')
       (empty_world
          \<lparr>calls :=
             [Download ''https://drive.google.com/uc?id=1BDEPaEWFEB2ADquS1VYp5iLZYVngw799''
                ''midis.zip''],
           stdout := [Text ''downloading pretrain data: '']\<rparr>)"
  by (simp add: prepare_pretrain_data_def path_exists_def empty_world_def and_then_def
      load_pretrain_data_def Let_def record_call_def py_print_def)

lemma example_extract_raises:
  "zipfile_extractall (example_env 1)
     ((files example_world)(''midis.zip'' \<mapsto> ZipFile [(''a.mid'', OtherFile), (''b.mid'', OtherFile)]))
     ''midis.zip'' ''midis''
   = Raised (OSError ''midis'')
       ((files example_world)(''midis.zip'' \<mapsto> ZipFile [(''a.mid'', OtherFile), (''b.mid'', OtherFile)]))"
  by (simp add: example_env_def example_world_def empty_world_def)

theorem corpus_acquisition_witness:
  "path_exists example_world ''midis''
   \<and> prepare_pretrain_data (example_env 1) (remi (example_env 1)) example_world
       = Returned () example_world
   \<and> \<not> path_exists empty_world ''midis''
   \<and> calls (final_state
        (prepare_pretrain_data (example_env 1) (remi (example_env 1)) empty_world))
       = [Download ''https://drive.google.com/uc?id=1BDEPaEWFEB2ADquS1VYp5iLZYVngw799''
            ''midis.zip'',
          ExtractAll ''midis.zip'' ''midis'', Remove ''midis.zip'',
          SplitFilesForTraining [] ''pretrain_data/dataset_train'' 1024 2,
          SplitFilesForTraining [] ''pretrain_data/dataset_validation'' 1024 2,
          SplitFilesForTraining [] ''pretrain_data/dataset_test'' 1024 2]
   \<and> path_exists (final_state
        (prepare_pretrain_data (example_env 1) (remi (example_env 1)) empty_world))
        ''midis/a.mid''
   \<and> \<not> path_exists (final_state
        (prepare_pretrain_data (example_env 1) (remi (example_env 1)) empty_world))
        ''midis.zip''
   \<and> calls (final_state
        (prepare_pretrain_data
           (example_env 1\<lparr>gdown_download := (\<lambda>_. Inl (LibraryError ''network''))\<rparr>)
           (remi (example_env 1)) empty_world))
       = [Download ''https://drive.google.com/uc?id=1BDEPaEWFEB2ADquS1VYp5iLZYVngw799''
            ''midis.zip'']
   \<and> calls (final_state
        (load_pretrain_data (example_env 1) ''u'' ''midis.zip'' ''midis'' example_world))
       = [Download ''u'' ''midis.zip'', ExtractAll ''midis.zip'' ''midis'']
   \<and> path_exists (final_state
        (load_pretrain_data (example_env 1) ''u'' ''midis.zip'' ''midis'' example_world))
        ''midis.zip''"
proof -
  let ?E = "example_env 1"
  let ?off = "example_env 1\<lparr>gdown_download := (\<lambda>_. Inl (LibraryError ''network''))\<rparr>"
  let ?tok = "remi (example_env 1)"
  let ?url = "''https://drive.google.com/uc?id=1BDEPaEWFEB2ADquS1VYp5iLZYVngw799''"
  let ?archive = "ZipFile [(''a.mid'', OtherFile), (''b.mid'', OtherFile)] :: (nat, rat, unit) node"
  have here: "path_exists example_world ''midis''"
    by (simp add: path_exists_def example_world_def)
  have absent: "\<not> path_exists empty_world ''midis''"
    by (simp add: path_exists_def empty_world_def)
  have 1: "prepare_pretrain_data ?E ?tok example_world = Returned () example_world"
    by (rule corpus_acquisition [of example_world ?E ?tok, THEN conjunct1, THEN mp, OF here])
  note run = corpus_acquisition [of empty_world ?E ?tok, THEN conjunct2, THEN conjunct1,
    THEN mp, OF absent]
  obtain w' where r: "prepare_pretrain_data ?E ?tok empty_world = Returned () w'"
    and a: "files w' ''midis/a.mid'' = Some OtherFile" and z: "files w' ''midis.zip'' = None"
    using example_prepare by simp
  from run [THEN conjunct2, THEN conjunct2, THEN spec, THEN mp, OF r] obtain rest where
    c: "calls w' = calls empty_world @
          [Download ?url ''midis.zip'', ExtractAll ''midis.zip'' ''midis'', Remove ''midis.zip'']
          @ rest"
    and splits: "\<forall>c \<in> set rest. \<exists>ps d m k. c = SplitFilesForTraining ps d m k"
    by blast
  have "calls w' =
          [Download ?url ''midis.zip'', ExtractAll ''midis.zip'' ''midis'', Remove ''midis.zip'',
           SplitFilesForTraining [] ''pretrain_data/dataset_train'' 1024 2,
           SplitFilesForTraining [] ''pretrain_data/dataset_validation'' 1024 2,
           SplitFilesForTraining [] ''pretrain_data/dataset_test'' 1024 2]"
    using r example_prepare by simp
  then have 2: "calls (final_state (prepare_pretrain_data ?E ?tok empty_world)) =
          [Download ?url ''midis.zip'', ExtractAll ''midis.zip'' ''midis'', Remove ''midis.zip'',
           SplitFilesForTraining [] ''pretrain_data/dataset_train'' 1024 2,
           SplitFilesForTraining [] ''pretrain_data/dataset_validation'' 1024 2,
           SplitFilesForTraining [] ''pretrain_data/dataset_test'' 1024 2]"
    and 3: "path_exists (final_state (prepare_pretrain_data ?E ?tok empty_world)) ''midis/a.mid''"
    and 4: "\<not> path_exists (final_state (prepare_pretrain_data ?E ?tok empty_world)) ''midis.zip''"
    using r a z c by (simp_all add: path_exists_def)
  have down: "gdown_download ?off ?url = Inl (LibraryError ''network'')"
    by simp
  from corpus_acquisition [of empty_world ?off ?tok ?url "''midis.zip''" "''midis''",
      THEN conjunct2, THEN conjunct2, THEN conjunct1, THEN spec, THEN mp, OF down]
  obtain w1 where l: "load_pretrain_data ?off ?url ''midis.zip'' ''midis'' empty_world
                      = Raised (LibraryError ''network'') w1"
    and lc: "calls w1 = calls empty_world @ [Download ?url ''midis.zip'']"
    by blast
  have "prepare_pretrain_data ?off ?tok empty_world
        = and_then (load_pretrain_data ?off ?url ''midis.zip'' ''midis'' empty_world)
            (\<lambda>_. split_pretrain_data ?off ''midis'' ?tok 1024)"
    by (rule corpus_acquisition [of empty_world ?off ?tok, THEN conjunct2, THEN conjunct1,
          THEN mp, OF absent, THEN conjunct1])
  with l lc have 5: "calls (final_state (prepare_pretrain_data ?off ?tok empty_world))
                     = [Download ?url ''midis.zip'']"
    by (simp add: and_then_def empty_world_def)
  have got: "gdown_download ?E ''u'' = Inr (Some ?archive)"
    by (simp add: example_env_def)
  have ex: "zipfile_extractall ?E
              (case Some ?archive of None \<Rightarrow> files example_world
               | Some n \<Rightarrow> (files example_world)(''midis.zip'' \<mapsto> n)) ''midis.zip'' ''midis''
            = Raised (OSError ''midis'') ((files example_world)(''midis.zip'' \<mapsto> ?archive))"
    using example_extract_raises by simp
  from corpus_acquisition [of example_world ?E ?tok "''u''" "''midis.zip''" "''midis''",
      THEN conjunct2, THEN conjunct2, THEN conjunct2, THEN conjunct1, THEN spec, THEN mp,
      OF got, THEN conjunct1, THEN spec, THEN spec, THEN mp, OF ex]
  obtain w2 where
    "load_pretrain_data ?E ''u'' ''midis.zip'' ''midis'' example_world = Raised (OSError ''midis'') w2"
    and "calls w2 = calls example_world @ [Download ''u'' ''midis.zip'', ExtractAll ''midis.zip'' ''midis'']"
    and "files w2 = (files example_world)(''midis.zip'' \<mapsto> ?archive)"
    by blast
  then have 6: "calls (final_state (load_pretrain_data ?E ''u'' ''midis.zip'' ''midis'' example_world))
                = [Download ''u'' ''midis.zip'', ExtractAll ''midis.zip'' ''midis'']"
    and 7: "path_exists (final_state
              (load_pretrain_data ?E ''u'' ''midis.zip'' ''midis'' example_world)) ''midis.zip''"
    by (simp_all add: example_world_def empty_world_def path_exists_def)
  from here 1 absent 2 3 4 5 6 7 show ?thesis by (intro conjI)
qed


section \<open>The padding mask\<close>

lemma batch_body_cases:
  "batch_body E b (t, w)
   = (case train_step E (parameters (model t)) (optimizer t) (drop_last_column (input_ids b))
             (tgt_key_padding_mask (drop_last_column (attention_mask b)))
             (drop_first_column (input_ids b)) of
        Inl e \<Rightarrow> Raised e (t\<lparr>step := step t + 1\<rparr>, w)
      | Inr (params, opt, l) \<Rightarrow>
          Returned ()
            (t\<lparr>step := step t + 1, model := with_parameters (model t) params, optimizer := opt,
               loss := Some l, total_loss := float_add E (total_loss t) l\<rparr>,
             if (step t + 1) mod 500 = 0
             then logging_info
                    (StepLoss (step t + 1)
                       (float_div E (float_add E (total_loss t) l)
                          (float_of_int E (int (step t + 1))))) w
             else w))"
  by (simp add: batch_body_def Let_def log_interval_def split: sum.splits)

lemma mask_of_ones:
  assumes "\<forall>row \<in> set attention. \<forall>a \<in> set row. a = 1"
  shows "tgt_key_padding_mask (drop_last_column attention)
         = map (\<lambda>row. replicate (length row - 1) False) attention"
proof -
  have "map (\<lambda>a. a = 0) (butlast row) = replicate (length row - 1) False"
    if "row \<in> set attention" for row
  proof -
    have "\<forall>a \<in> set (butlast row). a = 1"
      using assms that by (auto dest: in_set_butlastD)
    then have "map (\<lambda>a. a = 0) (butlast row) = map (\<lambda>_. False) (butlast row)"
      by (intro map_cong) auto
    then show ?thesis by (simp add: map_replicate_const)
  qed
  then show ?thesis
    by (simp add: tgt_key_padding_mask_def drop_last_column_def)
qed

text \<open>
  C6. The mask of a batch is computed from the attention mask without its last column:
  it has the shape of the shifted attention mask and is true exactly at the positions
  where the shifted attention mask is 0; for an attention mask of ones only, every entry
  of it is false. This mask is what the batch loop passes to the model: the batch body
  raises what the training step raises on this mask (with the shifted inputs and
  targets), takes parameters, optimizer state and loss from what the training step
  returns on it, and returns only when the training step on this mask has returned.
\<close>

theorem padding_mask_of_shifted_attention_mask:
  "length (tgt_key_padding_mask (drop_last_column (attention_mask b)))
     = length (attention_mask b)
   \<and> (\<forall>i < length (attention_mask b).
         length (tgt_key_padding_mask (drop_last_column (attention_mask b)) ! i)
           = length (attention_mask b ! i) - 1
       \<and> (\<forall>j < length (attention_mask b ! i) - 1.
             tgt_key_padding_mask (drop_last_column (attention_mask b)) ! i ! j
               = (drop_last_column (attention_mask b) ! i ! j = 0)
           \<and> drop_last_column (attention_mask b) ! i ! j = attention_mask b ! i ! j))
   \<and> ((\<forall>row \<in> set (attention_mask b). \<forall>a \<in> set row. a = 1) \<longrightarrow>
        (\<forall>row \<in> set (tgt_key_padding_mask (drop_last_column (attention_mask b))).
           \<forall>m \<in> set row. \<not> m)
      \<and> tgt_key_padding_mask (drop_last_column (attention_mask b))
          = map (\<lambda>row. replicate (length row - 1) False) (attention_mask b))
   \<and> (\<forall>e. train_step E (parameters (model t)) (optimizer t) (drop_last_column (input_ids b))
             (tgt_key_padding_mask (drop_last_column (attention_mask b)))
             (drop_first_column (input_ids b)) = Inl e \<longrightarrow>
          batch_body E b (t, w) = Raised e (t\<lparr>step := step t + 1\<rparr>, w))
   \<and> (\<forall>params opt l.
          train_step E (parameters (model t)) (optimizer t) (drop_last_column (input_ids b))
            (tgt_key_padding_mask (drop_last_column (attention_mask b)))
            (drop_first_column (input_ids b)) = Inr (params, opt, l) \<longrightarrow>
          (\<exists>w'. batch_body E b (t, w)
                 = Returned ()
                     (t\<lparr>step := step t + 1, model := with_parameters (model t) params,
                        optimizer := opt, loss := Some l,
                        total_loss := float_add E (total_loss t) l\<rparr>, w')))
   \<and> (\<forall>t' w'. batch_body E b (t, w) = Returned () (t', w') \<longrightarrow>
          (\<exists>params opt l.
             train_step E (parameters (model t)) (optimizer t) (drop_last_column (input_ids b))
               (tgt_key_padding_mask (drop_last_column (attention_mask b)))
               (drop_first_column (input_ids b)) = Inr (params, opt, l)))"
proof (intro conjI allI impI ballI)
  let ?attention = "attention_mask b"
  show "length (tgt_key_padding_mask (drop_last_column ?attention)) = length ?attention"
    by (simp add: tgt_key_padding_mask_def drop_last_column_def)
  {
    fix i assume i: "i < length ?attention"
    then show "length (tgt_key_padding_mask (drop_last_column ?attention) ! i)
           = length (?attention ! i) - 1"
      by (simp add: tgt_key_padding_mask_def drop_last_column_def)
    fix j assume j: "j < length (?attention ! i) - 1"
    from i j show "tgt_key_padding_mask (drop_last_column ?attention) ! i ! j
               = (drop_last_column ?attention ! i ! j = 0)"
      by (simp add: tgt_key_padding_mask_def drop_last_column_def)
    from i j show "drop_last_column ?attention ! i ! j = ?attention ! i ! j"
      by (simp add: drop_last_column_def nth_butlast)
  }
  {
    assume ones: "\<forall>row \<in> set ?attention. \<forall>a \<in> set row. a = 1"
    then show eq: "tgt_key_padding_mask (drop_last_column ?attention)
          = map (\<lambda>row. replicate (length row - 1) False) ?attention"
      by (rule mask_of_ones)
    fix row m
    assume "row \<in> set (tgt_key_padding_mask (drop_last_column ?attention))" "m \<in> set row"
    then show "\<not> m" unfolding eq by auto
  }
  {
    fix e
    assume "train_step E (parameters (model t)) (optimizer t) (drop_last_column (input_ids b))
             (tgt_key_padding_mask (drop_last_column ?attention))
             (drop_first_column (input_ids b)) = Inl e"
    then show "batch_body E b (t, w) = Raised e (t\<lparr>step := step t + 1\<rparr>, w)"
      by (simp add: batch_body_cases)
  }
  {
    fix params opt l
    assume "train_step E (parameters (model t)) (optimizer t) (drop_last_column (input_ids b))
            (tgt_key_padding_mask (drop_last_column ?attention))
            (drop_first_column (input_ids b)) = Inr (params, opt, l)"
    then show "\<exists>w'. batch_body E b (t, w)
                 = Returned ()
                     (t\<lparr>step := step t + 1, model := with_parameters (model t) params,
                        optimizer := opt, loss := Some l,
                        total_loss := float_add E (total_loss t) l\<rparr>, w')"
      by (simp add: batch_body_cases)
  }
  {
    fix t' w'
    assume "batch_body E b (t, w) = Returned () (t', w')"
    then show "\<exists>params opt l.
             train_step E (parameters (model t)) (optimizer t) (drop_last_column (input_ids b))
               (tgt_key_padding_mask (drop_last_column ?attention))
               (drop_first_column (input_ids b)) = Inr (params, opt, l)"
      by (auto simp: batch_body_cases split: sum.splits)
  }
qed

theorem padding_mask_of_shifted_attention_mask_witness:
  "tgt_key_padding_mask
     (drop_last_column (attention_mask \<lparr>input_ids = [[1, 5, 7]], attention_mask = [[1, 1, 1]]\<rparr>))
     = [[False, False]]
   \<and> batch_body
        (example_env 1
           \<lparr>train_step := (\<lambda>params opt decoder_input mask target.
              if mask = [[False, False]] then Inr (params + 1, opt + 1, 1)
              else Inl (LibraryError ''padding''))\<rparr>)
        \<lparr>input_ids = [[1, 5, 7]], attention_mask = [[1, 1, 1]]\<rparr>
        (\<lparr>model = Bare 0, optimizer = 0, step = 0, total_loss = 0, loss = None\<rparr>, empty_world)
       = Returned ()
           (\<lparr>model = Bare 1, optimizer = 1, step = 1, total_loss = 1, loss = Some 1\<rparr>,
            empty_world)
   \<and> tgt_key_padding_mask
        (drop_last_column (attention_mask \<lparr>input_ids = [[1, 0, 0]], attention_mask = [[1, 0, 0]]\<rparr>))
        ! 0 ! 1
   \<and> batch_body
        (example_env 1
           \<lparr>train_step := (\<lambda>params opt decoder_input mask target.
              if mask = [[False, False]] then Inr (params + 1, opt + 1, 1)
              else Inl (LibraryError ''padding''))\<rparr>)
        \<lparr>input_ids = [[1, 0, 0]], attention_mask = [[1, 0, 0]]\<rparr>
        (\<lparr>model = Bare 0, optimizer = 0, step = 0, total_loss = 0, loss = None\<rparr>, empty_world)
       = Raised (LibraryError ''padding'')
           (\<lparr>model = Bare 0, optimizer = 0, step = 1, total_loss = 0, loss = None\<rparr>,
            empty_world)"
proof -
  let ?E = "example_env 1
           \<lparr>train_step := (\<lambda>params opt decoder_input mask target.
              if mask = [[False, False]] then Inr (params + 1, opt + 1, 1)
              else Inl (LibraryError ''padding''))\<rparr>"
  let ?full = "\<lparr>input_ids = [[1, 5, 7]], attention_mask = [[1, 1, 1]]\<rparr>"
  let ?padded = "\<lparr>input_ids = [[1, 0, 0]], attention_mask = [[1, 0, 0]]\<rparr>"
  let ?t = "\<lparr>model = Bare (0::nat), optimizer = 0, step = 0, total_loss = (0::rat), loss = None\<rparr>"
  note full = padding_mask_of_shifted_attention_mask [of ?full ?E ?t empty_world]
  note padded = padding_mask_of_shifted_attention_mask [of ?padded ?E ?t empty_world]
  have ones: "\<forall>row \<in> set (attention_mask ?full). \<forall>a \<in> set row. a = 1" by simp
  from full [THEN conjunct2, THEN conjunct2, THEN conjunct1, THEN mp, OF ones, THEN conjunct2]
  have 1: "tgt_key_padding_mask (drop_last_column (attention_mask ?full)) = [[False, False]]"
    by simp
  then have "train_step ?E (parameters (model ?t)) (optimizer ?t)
               (drop_last_column (input_ids ?full))
               (tgt_key_padding_mask (drop_last_column (attention_mask ?full)))
               (drop_first_column (input_ids ?full)) = Inr (1, 1, 1)"
    by (simp add: example_env_def)
  from full [THEN conjunct2, THEN conjunct2, THEN conjunct2, THEN conjunct2, THEN conjunct1,
      THEN spec, THEN spec, THEN spec, THEN mp, OF this]
  obtain w' where r: "batch_body ?E ?full (?t, empty_world)
        = Returned ()
            (?t\<lparr>step := step ?t + 1, model := with_parameters (model ?t) 1, optimizer := 1,
                loss := Some 1, total_loss := float_add ?E (total_loss ?t) 1\<rparr>, w')"
    by blast
  moreover have "w' = empty_world"
    using r 1 by (simp add: batch_body_cases example_env_def)
  ultimately have 2: "batch_body ?E ?full (?t, empty_world)
       = Returned ()
           (\<lparr>model = Bare 1, optimizer = 1, step = 1, total_loss = 1, loss = Some 1\<rparr>,
            empty_world)"
    by (simp add: example_env_def)
  have i: "(0::nat) < length (attention_mask ?padded)"
    and j: "(1::nat) < length (attention_mask ?padded ! 0) - 1"
    by simp_all
  from padded [THEN conjunct2, THEN conjunct1, THEN spec, THEN mp, OF i, THEN conjunct2,
      THEN spec, THEN mp, OF j]
  have 3: "tgt_key_padding_mask (drop_last_column (attention_mask ?padded)) ! 0 ! 1"
    by simp
  have "tgt_key_padding_mask (drop_last_column (attention_mask ?padded)) \<noteq> [[False, False]]"
    using 3 by auto
  then have "train_step ?E (parameters (model ?t)) (optimizer ?t)
               (drop_last_column (input_ids ?padded))
               (tgt_key_padding_mask (drop_last_column (attention_mask ?padded)))
               (drop_first_column (input_ids ?padded)) = Inl (LibraryError ''padding'')"
    by simp
  from padded [THEN conjunct2, THEN conjunct2, THEN conjunct2, THEN conjunct1, THEN spec,
      THEN mp, OF this]
  have 4: "batch_body ?E ?padded (?t, empty_world)
       = Raised (LibraryError ''padding'')
           (\<lparr>model = Bare 0, optimizer = 0, step = 1, total_loss = 0, loss = None\<rparr>,
            empty_world)"
    by simp
  from 1 2 3 4 show ?thesis by (intro conjI)
qed


section \<open>The running average of the loss\<close>

lemma and_then_Returned_iff:
  "and_then r f = Returned v s \<longleftrightarrow> (\<exists>u s1. r = Returned u s1 \<and> f u s1 = Returned v s)"
  by (cases r) (simp_all add: and_then_def)

lemma batch_body_Returned:
  assumes "batch_body E b (t, w) = Returned () (t', w')"
  shows "\<exists>params opt l.
           train_step E (parameters (model t)) (optimizer t) (drop_last_column (input_ids b))
             (tgt_key_padding_mask (drop_last_column (attention_mask b)))
             (drop_first_column (input_ids b)) = Inr (params, opt, l)
         \<and> t' = t\<lparr>step := step t + 1, model := with_parameters (model t) params,
                   optimizer := opt, loss := Some l,
                   total_loss := float_add E (total_loss t) l\<rparr>
         \<and> w' = (if (step t + 1) mod 500 = 0
                  then logging_info
                         (StepLoss (step t + 1)
                            (float_div E (float_add E (total_loss t) l)
                               (float_of_int E (int (step t + 1))))) w
                  else w)"
  using assms
  by (auto simp: batch_body_def Let_def log_interval_def split: sum.splits if_splits)

lemma batch_loop_step:
  "batch_loop E bs (t, w) = Returned () (t', w') \<Longrightarrow> step t' = step t + length bs"
proof (induction bs arbitrary: t w)
  case Nil
  then show ?case by simp
next
  case (Cons b rest)
  from Cons.prems obtain t1 w1 where
    b: "batch_body E b (t, w) = Returned () (t1, w1)"
    and r: "batch_loop E rest (t1, w1) = Returned () (t', w')"
    by (auto simp: and_then_Returned_iff)
  from batch_body_Returned [OF b] have "step t1 = step t + 1" by auto
  with Cons.IH [OF r] show ?case by simp
qed

lemma save_checkpoint_trainer:
  "save_checkpoint epoch (t, w) = Returned () (t', w') \<Longrightarrow> t' = t"
  by (auto simp: save_checkpoint_def Let_def split: sum.splits option.splits outcome.splits)

lemma epoch_body_step:
  assumes "epoch_body E data_loader epoch (t, w) = Returned () (t', w')"
  shows "step t' = step t + length data_loader"
proof -
  from assms obtain t1 w1 where
    l: "batch_loop E data_loader (t\<lparr>total_loss := float_of_int E 0\<rparr>, w) = Returned () (t1, w1)"
    and rest: "(if length data_loader = 0 then Raised ZeroDivisionError (t1, w1)
          else
            (let log_msg =
                   EpochLoss (epoch + 1)
                     (float_div E (total_loss t1) (float_of_int E (int (length data_loader))));
                 w2 = logging_info log_msg (py_print log_msg w1)
             in if epoch mod save_every = 0 \<and> epoch \<noteq> 0
                then save_checkpoint epoch (t1, w2)
                else Returned () (t1, w2))) = Returned () (t', w')"
    by (auto simp: epoch_body_def and_then_Returned_iff)
  from rest have "t' = t1"
    by (auto simp: Let_def split: if_splits dest: save_checkpoint_trainer)
  with batch_loop_step [OF l] show ?thesis by simp
qed

lemma epoch_loop_step:
  "epoch_loop E data_loader epochs (t, w) = Returned () (t', w') \<Longrightarrow>
   step t' = step t + length epochs * length data_loader"
proof (induction epochs arbitrary: t w)
  case Nil
  then show ?case by simp
next
  case (Cons epoch rest)
  from Cons.prems obtain t1 w1 where
    b: "epoch_body E data_loader epoch (t, w) = Returned () (t1, w1)"
    and r: "epoch_loop E data_loader rest (t1, w1) = Returned () (t', w')"
    by (auto simp: and_then_Returned_iff)
  from epoch_body_step [OF b] Cons.IH [OF r] show ?case by simp
qed

text \<open>
  C7. A batch that is trained increases the step counter by one and adds its loss to
  total_loss; it writes a step entry to the log exactly when the new step count is a
  multiple of 500, and the value logged is total_loss divided by that step count. An
  epoch loop that returns has increased the step counter by the number of epochs times
  the number of batches: the counter is never reset. What an epoch does is independent
  of the total_loss it starts from, which is set to 0 first. The divisor is therefore the
  global step count, the dividend the sum over the current epoch only.
\<close>

theorem running_average_uses_global_step:
  "(\<forall>t' w'. batch_body E b (t, w) = Returned () (t', w') \<longrightarrow>
      step t' = step t + 1
    \<and> (\<exists>params opt l.
          train_step E (parameters (model t)) (optimizer t) (drop_last_column (input_ids b))
            (tgt_key_padding_mask (drop_last_column (attention_mask b)))
            (drop_first_column (input_ids b)) = Inr (params, opt, l)
        \<and> total_loss t' = float_add E (total_loss t) l
        \<and> logfile w' = logfile w @
            (if (step t + 1) mod 500 = 0
             then [StepLoss (step t + 1)
                     (float_div E (total_loss t') (float_of_int E (int (step t + 1))))]
             else [])))
   \<and> (\<forall>t' w'. epoch_loop E data_loader epochs (t, w) = Returned () (t', w') \<longrightarrow>
        step t' = step t + length epochs * length data_loader)
   \<and> epoch_body E data_loader epoch (t\<lparr>total_loss := x\<rparr>, w)
       = epoch_body E data_loader epoch (t, w)
   \<and> epoch_body E data_loader epoch (t, w)
       = epoch_body E data_loader epoch (t\<lparr>total_loss := float_of_int E 0\<rparr>, w)"
proof (intro conjI allI impI)
  fix t' w'
  assume r: "batch_body E b (t, w) = Returned () (t', w')"
  from batch_body_Returned [OF r] show "step t' = step t + 1" by auto
  from batch_body_Returned [OF r]
  show "\<exists>params opt l.
          train_step E (parameters (model t)) (optimizer t) (drop_last_column (input_ids b))
            (tgt_key_padding_mask (drop_last_column (attention_mask b)))
            (drop_first_column (input_ids b)) = Inr (params, opt, l)
        \<and> total_loss t' = float_add E (total_loss t) l
        \<and> logfile w' = logfile w @
            (if (step t + 1) mod 500 = 0
             then [StepLoss (step t + 1)
                     (float_div E (total_loss t') (float_of_int E (int (step t + 1))))]
             else [])"
    by (auto simp: logging_info_def)
next
  fix t' w'
  assume "epoch_loop E data_loader epochs (t, w) = Returned () (t', w')"
  then show "step t' = step t + length epochs * length data_loader"
    by (rule epoch_loop_step)
next
  show "epoch_body E data_loader epoch (t\<lparr>total_loss := x\<rparr>, w)
       = epoch_body E data_loader epoch (t, w)"
    by (simp add: epoch_body_def)
next
  show "epoch_body E data_loader epoch (t, w)
       = epoch_body E data_loader epoch (t\<lparr>total_loss := float_of_int E 0\<rparr>, w)"
    by (simp add: epoch_body_def)
qed

lemma example_batch_body:
  "batch_body (example_env 2) \<lparr>input_ids = [[1, 5, 7]], attention_mask = [[1, 1, 1]]\<rparr>
     (\<lparr>model = DataParallel 0, optimizer = 0, step = 499, total_loss = 250, loss = None\<rparr>,
      example_world)
   = Returned ()
       (\<lparr>model = DataParallel 1, optimizer = 1, step = 500, total_loss = 251, loss = Some 1\<rparr>,
        example_world\<lparr>logfile := [StepLoss 500 (251 / 500)]\<rparr>)"
  by (simp add: batch_body_def example_env_def example_world_def empty_world_def Let_def
      log_interval_def logging_info_def)

lemma example_epoch_loop:
  "epoch_loop (example_env 2) [\<lparr>input_ids = [[1, 5, 7]], attention_mask = [[1, 1, 1]]\<rparr>] [0, 1]
     (\<lparr>model = DataParallel 0, optimizer = 0, step = 499, total_loss = 250, loss = None\<rparr>,
      example_world)
   = Returned ()
       (\<lparr>model = DataParallel 2, optimizer = 2, step = 501, total_loss = 1, loss = Some 1\<rparr>,
        example_world
          \<lparr>stdout := [EpochLoss 1 1, EpochLoss 2 1],
           logfile := [StepLoss 500 (1 / 500), EpochLoss 1 1, EpochLoss 2 1]\<rparr>)"
  by (simp add: epoch_body_def batch_body_def and_then_def example_env_def example_world_def
      empty_world_def Let_def log_interval_def logging_info_def py_print_def save_every_def)

theorem running_average_uses_global_step_witness:
  "logfile (snd (final_state
      (batch_body (example_env 2) \<lparr>input_ids = [[1, 5, 7]], attention_mask = [[1, 1, 1]]\<rparr>
         (\<lparr>model = DataParallel 0, optimizer = 0, step = 499, total_loss = 250, loss = None\<rparr>,
          example_world))))
     = [StepLoss 500 (251 / 500)]
   \<and> step (fst (final_state
      (epoch_loop (example_env 2) [\<lparr>input_ids = [[1, 5, 7]], attention_mask = [[1, 1, 1]]\<rparr>]
         [0, 1]
         (\<lparr>model = DataParallel 0, optimizer = 0, step = 499, total_loss = 250, loss = None\<rparr>,
          example_world)))) = 501
   \<and> logfile (snd (final_state
      (epoch_loop (example_env 2) [\<lparr>input_ids = [[1, 5, 7]], attention_mask = [[1, 1, 1]]\<rparr>]
         [0, 1]
         (\<lparr>model = DataParallel 0, optimizer = 0, step = 499, total_loss = 250, loss = None\<rparr>,
          example_world))))
     = [StepLoss 500 (1 / 500), EpochLoss 1 1, EpochLoss 2 1]"
proof -
  let ?E = "example_env 2"
  let ?b = "\<lparr>input_ids = [[1, 5, 7]], attention_mask = [[1, 1, 1]]\<rparr>"
  let ?t = "\<lparr>model = DataParallel (0::nat), optimizer = 0, step = 499, total_loss = (250::rat),
              loss = None\<rparr>"
  note facts = running_average_uses_global_step [of ?E ?b ?t example_world "[?b]" "[0, 1]"]
  obtain t1 w1 where b: "batch_body ?E ?b (?t, example_world) = Returned () (t1, w1)"
    using example_batch_body by blast
  with facts obtain params opt l where
    "train_step ?E (parameters (model ?t)) (optimizer ?t) (drop_last_column (input_ids ?b))
       (tgt_key_padding_mask (drop_last_column (attention_mask ?b)))
       (drop_first_column (input_ids ?b)) = Inr (params, opt, l)"
    and tl: "total_loss t1 = float_add ?E (total_loss ?t) l"
    and lg: "logfile w1 = logfile example_world @
            (if (step ?t + 1) mod 500 = 0
             then [StepLoss (step ?t + 1)
                     (float_div ?E (total_loss t1) (float_of_int ?E (int (step ?t + 1))))]
             else [])"
    by blast
  then have "l = 1" by (simp add: example_env_def)
  with tl lg have 1: "logfile w1 = [StepLoss 500 (251 / 500)]"
    by (simp add: example_env_def example_world_def empty_world_def)
  obtain t2 w2 where e: "epoch_loop ?E [?b] [0, 1] (?t, example_world) = Returned () (t2, w2)"
    using example_epoch_loop by blast
  with facts have "step t2 = step ?t + length [0, 1 :: int] * length [?b]"
    by blast
  then have 2: "step t2 = 501" by simp
  have 3: "logfile w2 = [StepLoss 500 (1 / 500), EpochLoss 1 1, EpochLoss 2 1]"
    using e example_epoch_loop by simp
  from 1 2 3 b e show ?thesis by simp
qed


section \<open>The attribute module of the model\<close>

lemma build_model_bare:
  "cuda_device_count E \<le> 1 \<Longrightarrow> build_model E n w = (Bare (new_parameters E n), w)"
  by (simp add: build_model_def Let_def)

lemma build_model_wrapped:
  "1 < cuda_device_count E \<Longrightarrow>
   build_model E n w = (DataParallel (new_parameters E n), py_print (UsingGPUs (cuda_device_count E)) w)"
  by (simp add: build_model_def Let_def)

lemma resume_checkpoint_bare:
  assumes "model t = Bare p" and "files w checkpoint_path_0 = Some (TorchFile d)"
  shows "resume_checkpoint E (t, w) = Raised (AttributeError ''module'') (t, w)"
  using assms by (simp add: resume_checkpoint_def path_exists_def torch_load_def)

lemma save_checkpoint_bare:
  "model t = Bare p \<Longrightarrow> save_checkpoint epoch (t, w) = Raised (AttributeError ''module'') (t, w)"
  by (simp add: save_checkpoint_def)

lemma batch_loop_bare:
  "batch_loop E bs (t, w) = Returned () (t', w') \<Longrightarrow> model t = Bare p \<Longrightarrow> \<exists>p'. model t' = Bare p'"
proof (induction bs arbitrary: t w p)
  case Nil
  then show ?case by simp
next
  case (Cons b rest)
  from Cons.prems(1) obtain t1 w1 where
    b: "batch_body E b (t, w) = Returned () (t1, w1)"
    and r: "batch_loop E rest (t1, w1) = Returned () (t', w')"
    by (auto simp: and_then_Returned_iff)
  from batch_body_Returned [OF b] Cons.prems(2) obtain p1 where "model t1 = Bare p1"
    by auto
  from Cons.IH [OF r this] show ?case .
qed

lemma epoch_loop_bare_save_epoch:
  assumes bare: "model t = Bare p"
    and save: "epoch mod save_every = 0" "epoch \<noteq> 0"
    and loader: "data_loader \<noteq> []"
    and batches: "batch_loop E data_loader (t\<lparr>total_loss := float_of_int E 0\<rparr>, w)
                  = Returned () (t1, w1)"
  shows "\<exists>w2. epoch_loop E data_loader (epoch # rest) (t, w)
               = Raised (AttributeError ''module'') (t1, w2)"
proof -
  have "model (t\<lparr>total_loss := float_of_int E 0\<rparr>) = Bare p" using bare by simp
  from batch_loop_bare [OF batches this] obtain p' where "model t1 = Bare p'" by blast
  then show ?thesis
    using save loader batches
    by (simp add: epoch_body_def and_then_def Let_def save_checkpoint_bare)
qed

text \<open>
  C9. The model built by main has the attribute \<open>module\<close> exactly when more than one
  accelerator is visible. With at most one accelerator, resuming from an existing
  checkpoint file raises AttributeError and leaves model and optimizer as they were,
  the save step raises AttributeError, an epoch loop that reaches the end of a save
  epoch (its batches trained, the loader not empty) raises AttributeError there and runs
  no later epoch, and main itself raises AttributeError when the checkpoint file is
  present after start-up.
\<close>

theorem module_attribute_only_when_wrapped:
  fixes E :: "('t, 'f, 'x) env"
  shows "(1 < cuda_device_count E \<longrightarrow>
      module_of (fst (build_model E n w0)) = Inr (new_parameters E n))
   \<and> (cuda_device_count E \<le> 1 \<longrightarrow>
        module_of (fst (build_model E n w0)) = Inl (AttributeError ''module'')
      \<and> (\<forall>t. model t = fst (build_model E n w0) \<longrightarrow>
           (\<forall>d. files w checkpoint_path_0 = Some (TorchFile d) \<longrightarrow>
                resume_checkpoint E (t, w) = Raised (AttributeError ''module'') (t, w))
         \<and> save_checkpoint epoch (t, w) = Raised (AttributeError ''module'') (t, w)
         \<and> (epoch mod save_every = 0 \<and> epoch \<noteq> 0 \<and> data_loader \<noteq> [] \<longrightarrow>
              (\<forall>t1 w1.
                 batch_loop E data_loader (t\<lparr>total_loss := float_of_int E 0\<rparr>, w)
                   = Returned () (t1, w1) \<longrightarrow>
                 (\<exists>w2. epoch_loop E data_loader (epoch # rest) (t, w)
                        = Raised (AttributeError ''module'') (t1, w2)))))
      \<and> (\<forall>w1 d.
           and_then (makedirs_exist_ok ''pretrain_checkpoints'' w)
             (\<lambda>_. prepare_pretrain_data E (remi E)) = Returned () w1 \<longrightarrow>
           files w1 checkpoint_path_0 = Some (TorchFile d) \<longrightarrow>
           (\<exists>t. main E w = Raised (AttributeError ''module'') (Some t, w1))))"
proof (intro conjI impI allI)
  assume "1 < cuda_device_count E"
  then show "module_of (fst (build_model E n w0)) = Inr (new_parameters E n)"
    by (simp add: build_model_wrapped)
next
  assume "cuda_device_count E \<le> 1"
  then show "module_of (fst (build_model E n w0)) = Inl (AttributeError ''module'')"
    by (simp add: build_model_bare)
next
  fix t :: "('t, 'f) trainer" and d
  assume "cuda_device_count E \<le> 1" "model t = fst (build_model E n w0)"
    "files w checkpoint_path_0 = Some (TorchFile d)"
  then show "resume_checkpoint E (t, w) = Raised (AttributeError ''module'') (t, w)"
    by (simp add: build_model_bare resume_checkpoint_bare)
next
  fix t :: "('t, 'f) trainer"
  assume "cuda_device_count E \<le> 1" "model t = fst (build_model E n w0)"
  then show "save_checkpoint epoch (t, w) = Raised (AttributeError ''module'') (t, w)"
    by (simp add: build_model_bare save_checkpoint_bare)
next
  fix t :: "('t, 'f) trainer" and t1 w1
  assume "cuda_device_count E \<le> 1" "model t = fst (build_model E n w0)"
    and "epoch mod save_every = 0 \<and> epoch \<noteq> 0 \<and> data_loader \<noteq> []"
    and "batch_loop E data_loader (t\<lparr>total_loss := float_of_int E 0\<rparr>, w) = Returned () (t1, w1)"
  then show "\<exists>w2. epoch_loop E data_loader (epoch # rest) (t, w)
                   = Raised (AttributeError ''module'') (t1, w2)"
    by (intro epoch_loop_bare_save_epoch [where p = "new_parameters E n"])
      (simp_all add: build_model_bare)
next
  fix w1 d
  assume one: "cuda_device_count E \<le> 1"
    and start: "and_then (makedirs_exist_ok ''pretrain_checkpoints'' w)
             (\<lambda>_. prepare_pretrain_data E (remi E)) = Returned () w1"
    and ckpt: "files w1 checkpoint_path_0 = Some (TorchFile d)"
  let ?m = "new_parameters E (length (vocab (remi E)))"
  let ?t = "\<lparr>model = Bare ?m, optimizer = new_optimizer_state E ?m, step = 0,
              total_loss = float_of_int E 0, loss = None\<rparr>"
  have "resume_checkpoint E (?t, w1) = Raised (AttributeError ''module'') (?t, w1)"
    using ckpt by (intro resume_checkpoint_bare) simp_all
  then have "main E w = Raised (AttributeError ''module'') (Some ?t, w1)"
    using one start by (simp add: main_def Let_def build_model_bare and_then_def)
  then show "\<exists>t. main E w = Raised (AttributeError ''module'') (Some t, w1)" by blast
qed

lemma example_startup:
  "and_then (makedirs_exist_ok ''pretrain_checkpoints''
              (example_world\<lparr>files := (files example_world)
                 (checkpoint_path_0 \<mapsto> TorchFile example_checkpoint)\<rparr>))
     (\<lambda>_. prepare_pretrain_data (example_env g) (remi (example_env g)))
   = Returned ()
       (example_world\<lparr>files := (files example_world)
          (checkpoint_path_0 \<mapsto> TorchFile example_checkpoint,
           ''pretrain_checkpoints'' \<mapsto> Directory)\<rparr>)"
  by (simp add: and_then_def makedirs_exist_ok_def prepare_pretrain_data_def path_exists_def
      example_world_def empty_world_def checkpoint_path_0_def)

lemma example_batch_loop_bare:
  "batch_loop (example_env 1) [\<lparr>input_ids = [[1, 5, 7]], attention_mask = [[1, 1, 1]]\<rparr>]
     (\<lparr>model = Bare 0, optimizer = 0, step = 0, total_loss = 0, loss = None\<rparr>
        \<lparr>total_loss := float_of_int (example_env 1) 0\<rparr>, example_world)
   = Returned ()
       (\<lparr>model = Bare 1, optimizer = 1, step = 1, total_loss = 1, loss = Some 1\<rparr>, example_world)"
  by (simp add: batch_body_def and_then_def example_env_def Let_def log_interval_def)

theorem module_attribute_only_when_wrapped_witness:
  "module_of (fst (build_model (example_env 2) 2 example_world)) = Inr 0
   \<and> module_of (fst (build_model (example_env 1) 2 example_world))
       = Inl (AttributeError ''module'')
   \<and> resume_checkpoint (example_env 1)
        (\<lparr>model = Bare 0, optimizer = 0, step = 0, total_loss = 0, loss = None\<rparr>,
         example_world\<lparr>files := (files example_world)
            (checkpoint_path_0 \<mapsto> TorchFile example_checkpoint)\<rparr>)
       = Raised (AttributeError ''module'')
           (\<lparr>model = Bare 0, optimizer = 0, step = 0, total_loss = 0, loss = None\<rparr>,
            example_world\<lparr>files := (files example_world)
               (checkpoint_path_0 \<mapsto> TorchFile example_checkpoint)\<rparr>)
   \<and> save_checkpoint 2
        (\<lparr>model = Bare 0, optimizer = 0, step = 0, total_loss = 0, loss = None\<rparr>, example_world)
       = Raised (AttributeError ''module'')
           (\<lparr>model = Bare 0, optimizer = 0, step = 0, total_loss = 0, loss = None\<rparr>,
            example_world)
   \<and> (\<exists>w2. epoch_loop (example_env 1)
               [\<lparr>input_ids = [[1, 5, 7]], attention_mask = [[1, 1, 1]]\<rparr>] [2, 3]
               (\<lparr>model = Bare 0, optimizer = 0, step = 0, total_loss = 0, loss = None\<rparr>,
                example_world)
             = Raised (AttributeError ''module'')
                 (\<lparr>model = Bare 1, optimizer = 1, step = 1, total_loss = 1, loss = Some 1\<rparr>, w2))
   \<and> (\<exists>t. main (example_env 1)
              (example_world\<lparr>files := (files example_world)
                 (checkpoint_path_0 \<mapsto> TorchFile example_checkpoint)\<rparr>)
            = Raised (AttributeError ''module'')
                (Some t,
                 example_world\<lparr>files := (files example_world)
                   (checkpoint_path_0 \<mapsto> TorchFile example_checkpoint,
                    ''pretrain_checkpoints'' \<mapsto> Directory)\<rparr>))"
proof -
  let ?b = "\<lparr>input_ids = [[1, 5, 7]], attention_mask = [[1, 1, 1]]\<rparr>"
  let ?t = "\<lparr>model = Bare (0::nat), optimizer = 0, step = 0, total_loss = (0::rat), loss = None\<rparr>"
  let ?wc = "example_world\<lparr>files := (files example_world)
               (checkpoint_path_0 \<mapsto> TorchFile example_checkpoint)\<rparr>"
  have many: "1 < cuda_device_count (example_env 2)"
    and one: "cuda_device_count (example_env 1) \<le> 1"
    and m: "model ?t = fst (build_model (example_env 1) 2 example_world)"
    and n2: "new_parameters (example_env 2) 2 = 0"
    by (simp_all add: example_env_def build_model_def)
  have ck: "files ?wc checkpoint_path_0 = Some (TorchFile example_checkpoint)"
    by simp
  have sv: "(2::int) mod save_every = 0 \<and> (2::int) \<noteq> 0 \<and> [?b] \<noteq> []"
    by (simp add: save_every_def)
  have ck1: "files (example_world\<lparr>files := (files example_world)
                (checkpoint_path_0 \<mapsto> TorchFile example_checkpoint,
                 ''pretrain_checkpoints'' \<mapsto> Directory)\<rparr>) checkpoint_path_0
             = Some (TorchFile example_checkpoint)"
    by (simp add: checkpoint_path_0_def)
  have 1: "module_of (fst (build_model (example_env 2) 2 example_world)) = Inr 0"
    using module_attribute_only_when_wrapped [of "example_env 2" 2 example_world] many n2
    by simp
  note at_wc = module_attribute_only_when_wrapped
    [of "example_env 1" 2 example_world ?wc 2 "[?b]" "[3]"]
  note at_w = module_attribute_only_when_wrapped
    [of "example_env 1" 2 example_world example_world 2 "[?b]" "[3]"]
  note single_wc = at_wc [THEN conjunct2, THEN mp, OF one]
  note single_w = at_w [THEN conjunct2, THEN mp, OF one]
  note trainer_wc = single_wc [THEN conjunct2, THEN conjunct1, THEN spec, of ?t, THEN mp, OF m]
  note trainer_w = single_w [THEN conjunct2, THEN conjunct1, THEN spec, of ?t, THEN mp, OF m]
  have 2: "module_of (fst (build_model (example_env 1) 2 example_world))
           = Inl (AttributeError ''module'')"
    by (rule single_wc [THEN conjunct1])
  have 3: "resume_checkpoint (example_env 1) (?t, ?wc) = Raised (AttributeError ''module'') (?t, ?wc)"
    by (rule trainer_wc [THEN conjunct1, THEN spec, THEN mp, OF ck])
  have 4: "save_checkpoint 2 (?t, example_world)
           = Raised (AttributeError ''module'') (?t, example_world)"
    by (rule trainer_w [THEN conjunct2, THEN conjunct1])
  have 5: "\<exists>w2. epoch_loop (example_env 1) [?b] [2, 3] (?t, example_world)
             = Raised (AttributeError ''module'')
                 (\<lparr>model = Bare 1, optimizer = 1, step = 1, total_loss = 1, loss = Some 1\<rparr>, w2)"
    by (rule trainer_w [THEN conjunct2, THEN conjunct2, THEN mp, OF sv, THEN spec, THEN spec,
          THEN mp, OF example_batch_loop_bare])
  have 6: "\<exists>t. main (example_env 1) ?wc
            = Raised (AttributeError ''module'')
                (Some t,
                 example_world\<lparr>files := (files example_world)
                   (checkpoint_path_0 \<mapsto> TorchFile example_checkpoint,
                    ''pretrain_checkpoints'' \<mapsto> Directory)\<rparr>)"
    by (rule single_wc [THEN conjunct2, THEN conjunct2, THEN spec, THEN spec, THEN mp,
          OF example_startup [of 1], THEN mp, OF ck1])
  from 1 2 3 4 5 6 show ?thesis by (intro conjI)
qed


section \<open>Resuming from the checkpoint\<close>

text \<open>
  Without a file at the fixed path the trainer starts at epoch 0; with a checkpoint
  there and a wrapped model, parameters and optimizer state are taken from the
  checkpoint and the trainer starts at the saved epoch plus one. The epochs run are
  those of \<open>range(start_epoch, 20)\<close>.
\<close>

lemma resume_checkpoint_absent:
  "\<not> path_exists w checkpoint_path_0 \<Longrightarrow> resume_checkpoint E (t, w) = Returned (PyInt 0) (t, w)"
  by (simp add: resume_checkpoint_def)

lemma resume_checkpoint_wrapped:
  assumes "model t = DataParallel p"
    and "files w checkpoint_path_0 = Some (TorchFile d)"
    and "map_of d ''model_state_dict'' = Some (StateDict m)"
    and "map_of d ''optimizer_state_dict'' = Some (StateDict opt)"
    and "map_of d ''epoch'' = Some (PyInt k)"
  shows "resume_checkpoint E (t, w)
         = Returned (PyInt (k + 1))
             (t\<lparr>model := DataParallel m, optimizer := opt\<rparr>,
              logging_info (ResumedTraining (PyInt k)) (py_print (LoadedCheckpoint (PyInt k)) w))"
  using assms
  by (simp add: resume_checkpoint_def path_exists_def torch_load_def dict_get_def chain_def)

lemma py_range_num_epochs: "py_range (PyInt s) num_epochs = Inr [s..19]"
  by (simp add: num_epochs_def)

text \<open>
  C2. On a machine with one accelerator and a checkpoint file at the fixed path, main
  does not load the checkpoint: evaluating \<open>model.module\<close> raises AttributeError,
  before any state is loaded and before start_epoch is set, and no epoch is run.
\<close>

theorem resume_aborts_on_single_device:
  "main (example_env 1)
     (example_world\<lparr>files := (files example_world)
        (checkpoint_path_0 \<mapsto> TorchFile example_checkpoint)\<rparr>)
   = Raised (AttributeError ''module'')
       (Some \<lparr>model = Bare 0, optimizer = 0, step = 0, total_loss = 0, loss = None\<rparr>,
        example_world\<lparr>files := (files example_world)
          (checkpoint_path_0 \<mapsto> TorchFile example_checkpoint,
           ''pretrain_checkpoints'' \<mapsto> Directory)\<rparr>)"
proof -
  have "resume_checkpoint (example_env 1)
          (\<lparr>model = Bare 0, optimizer = 0, step = 0, total_loss = 0, loss = None\<rparr>,
           example_world\<lparr>files := (files example_world)
             (checkpoint_path_0 \<mapsto> TorchFile example_checkpoint,
              ''pretrain_checkpoints'' \<mapsto> Directory)\<rparr>)
        = Raised (AttributeError ''module'')
            (\<lparr>model = Bare 0, optimizer = 0, step = 0, total_loss = 0, loss = None\<rparr>,
             example_world\<lparr>files := (files example_world)
               (checkpoint_path_0 \<mapsto> TorchFile example_checkpoint,
                ''pretrain_checkpoints'' \<mapsto> Directory)\<rparr>)"
    by (rule resume_checkpoint_bare [where p = 0 and d = example_checkpoint])
      (simp_all add: checkpoint_path_0_def)
  then show ?thesis
    unfolding main_def example_startup
    by (simp add: Let_def build_model_def and_then_def example_env_def)
qed


section \<open>Saving checkpoints\<close>

lemma save_checkpoint_wrapped:
  assumes "model t = DataParallel m" and "loss t = Some l"
    and "files w (checkpoint_path_of epoch) \<noteq> Some Directory"
  shows "save_checkpoint epoch (t, w)
         = Returned ()
             (t, py_print (SavedCheckpoint (checkpoint_path_of epoch))
                   (w\<lparr>files := (files w)
                      (checkpoint_path_of epoch \<mapsto>
                         TorchFile
                           [(''epoch'', PyInt epoch), (''model_state_dict'', StateDict m),
                            (''optimizer_state_dict'', StateDict (optimizer t)),
                            (''loss'', PyFloat l)])\<rparr>))"
  using assms
  by (auto simp: save_checkpoint_def Let_def write_file_def split: option.splits node.splits)

lemma batch_loop_files:
  "batch_loop E bs (t, w) = Returned () (t', w') \<Longrightarrow>
   files w' = files w \<and> (bs \<noteq> [] \<longrightarrow> loss t' \<noteq> None)"
proof (induction bs arbitrary: t w)
  case Nil
  then show ?case by simp
next
  case (Cons b rest)
  from Cons.prems obtain t1 w1 where
    b: "batch_body E b (t, w) = Returned () (t1, w1)"
    and r: "batch_loop E rest (t1, w1) = Returned () (t', w')"
    by (auto simp: and_then_Returned_iff)
  from batch_body_Returned [OF b] have 1: "files w1 = files w" "loss t1 \<noteq> None"
    by (auto simp: logging_info_def)
  from Cons.IH [OF r] have 2: "files w' = files w1" "rest \<noteq> [] \<longrightarrow> loss t' \<noteq> None"
    by simp_all
  show ?case
  proof (cases rest)
    case Nil
    with r 1 show ?thesis by simp
  next
    case (Cons c cs)
    with 1 2 show ?thesis by simp
  qed
qed

lemma epoch_body_checkpoint:
  assumes "epoch_body E data_loader epoch (t, w) = Returned () (t', w')"
  shows "(epoch mod save_every = 0 \<and> epoch \<noteq> 0 \<longrightarrow>
           (\<exists>m l. model t' = DataParallel m \<and> loss t' = Some l
                \<and> files w' = (files w)
                     (checkpoint_path_of epoch \<mapsto>
                        TorchFile
                          [(''epoch'', PyInt epoch), (''model_state_dict'', StateDict m),
                           (''optimizer_state_dict'', StateDict (optimizer t')),
                           (''loss'', PyFloat l)])))
       \<and> (\<not> (epoch mod save_every = 0 \<and> epoch \<noteq> 0) \<longrightarrow> files w' = files w)"
proof -
  from assms obtain t1 w1 where
    l: "batch_loop E data_loader (t\<lparr>total_loss := float_of_int E 0\<rparr>, w) = Returned () (t1, w1)"
    and rest: "(if length data_loader = 0 then Raised ZeroDivisionError (t1, w1)
          else
            (let log_msg =
                   EpochLoss (epoch + 1)
                     (float_div E (total_loss t1) (float_of_int E (int (length data_loader))));
                 w2 = logging_info log_msg (py_print log_msg w1)
             in if epoch mod save_every = 0 \<and> epoch \<noteq> 0
                then save_checkpoint epoch (t1, w2)
                else Returned () (t1, w2))) = Returned () (t', w')"
    by (auto simp: epoch_body_def and_then_Returned_iff)
  from batch_loop_files [OF l] have f1: "files w1 = files w" by simp
  show ?thesis
  proof (cases "epoch mod save_every = 0 \<and> epoch \<noteq> 0")
    case False
    with rest f1 show ?thesis
      by (auto simp: Let_def logging_info_def py_print_def split: if_splits)
  next
    case True
    let ?w2 = "logging_info
                 (EpochLoss (epoch + 1)
                    (float_div E (total_loss t1) (float_of_int E (int (length data_loader)))))
                 (py_print
                    (EpochLoss (epoch + 1)
                       (float_div E (total_loss t1) (float_of_int E (int (length data_loader)))))
                    w1)"
    from rest True have s: "save_checkpoint epoch (t1, ?w2) = Returned () (t', w')"
      by (simp add: Let_def split: if_splits)
    have f2: "files ?w2 = files w" using f1 by (simp add: logging_info_def py_print_def)
    from s f2 have "\<exists>m l. model t' = DataParallel m \<and> loss t' = Some l
                \<and> files w' = (files w)
                     (checkpoint_path_of epoch \<mapsto>
                        TorchFile
                          [(''epoch'', PyInt epoch), (''model_state_dict'', StateDict m),
                           (''optimizer_state_dict'', StateDict (optimizer t')),
                           (''loss'', PyFloat l)])"
      by (cases "model t1")
        (auto simp: save_checkpoint_def Let_def write_file_def py_print_def
          split: option.splits node.splits)
    with True show ?thesis by simp
  qed
qed

text \<open>
  C3. On a machine with one accelerator, without a checkpoint to resume from and with a
  loader of one batch, main trains epochs 0, 1 and 2 and then raises AttributeError at
  the save step of epoch 2: no checkpoint file has been written and no later epoch is
  run.
\<close>

theorem first_checkpoint_aborts_on_single_device:
  "main (example_env 1) example_world
   = Raised (AttributeError ''module'')
       (Some \<lparr>model = Bare 3, optimizer = 3, step = 3, total_loss = 1, loss = Some 1\<rparr>,
        \<lparr>files = [''midis'' \<mapsto> Directory, ''pretrain_checkpoints'' \<mapsto> Directory],
         calls = [],
         stdout = [EpochLoss 1 1, EpochLoss 2 1, EpochLoss 3 1],
         logfile = [EpochLoss 1 1, EpochLoss 2 1, EpochLoss 3 1]\<rparr>)"
  by (simp add: main_def and_then_def makedirs_exist_ok_def prepare_pretrain_data_def
      path_exists_def example_world_def empty_world_def example_env_def Let_def build_model_def
      resume_checkpoint_def checkpoint_path_0_def num_epochs_def upto.simps epoch_body_def
      batch_body_def log_interval_def save_every_def logging_info_def py_print_def
      save_checkpoint_def)

end
